theory Spec2Isabelle
  imports Main "HOL-Library.Sublist"
begin

section \<open>Story publishing (src/store/publish/helpers.js)\<close>

text \<open>
  A shallow embedding of the four publishing functions of \<^verbatim>\<open>helpers.js\<close>:
  \<^verbatim>\<open>publishPassage\<close>, \<^verbatim>\<open>publishStory\<close>, \<^verbatim>\<open>publishStoryWithFormat\<close> and
  \<^verbatim>\<open>publishArchive\<close>. JavaScript strings are \<^typ>\<open>string\<close> (lists of code units, of
  which the code inspects ASCII characters only); a thrown \<^verbatim>\<open>Error\<close> is the left summand
  of the result type; \<^verbatim>\<open>null\<close> and \<^verbatim>\<open>undefined\<close> are \<^term>\<open>None\<close>.
  \<^verbatim>\<open>publishArchiveToFile\<close>, which reads the clock and hands the archive to \<^verbatim>\<open>saveAs\<close>, is
  left out.
\<close>

subsection \<open>Host-language operations\<close>

datatype error = MissingTemplateSource | NoStartPoint | StartPointNotFound

type_synonym 'a result = "error + 'a"

text \<open>
  Truthiness of a value that is a string, \<^verbatim>\<open>null\<close> or \<^verbatim>\<open>undefined\<close>: only a non-empty
  string is truthy. \<^verbatim>\<open>a || b\<close> is \<^verbatim>\<open>a\<close> when \<^verbatim>\<open>a\<close> is truthy and \<^verbatim>\<open>b\<close> otherwise.
\<close>

definition truthy :: "string option \<Rightarrow> bool" where
  "truthy v = (case v of None \<Rightarrow> False | Some s \<Rightarrow> s \<noteq> [])"

definition js_or :: "string option \<Rightarrow> string option \<Rightarrow> string option" where
  "js_or a b = (if truthy a then a else b)"

text \<open>
  \<^verbatim>\<open>Number.prototype.toString\<close> on a non-negative integer (array indices and the local
  ids derived from them): plain decimal digits. An array has fewer than \<open>2^32\<close> elements,
  far below the size from which JavaScript writes a number with an exponent.
\<close>

fun decimal :: "nat \<Rightarrow> string" where
  "decimal n =
     (if n < 10 then [''0123456789'' ! n]
      else decimal (n div 10) @ [''0123456789'' ! (n mod 10)])"

text \<open>\<^verbatim>\<open>Array.prototype.join\<close>; \<^verbatim>\<open>Array.prototype.toString\<close> is \<^verbatim>\<open>join(',')\<close>.\<close>

fun join :: "string \<Rightarrow> string list \<Rightarrow> string" where
  "join sep [] = []"
| "join sep [x] = x"
| "join sep (x # y # ys) = x @ sep @ join sep (y # ys)"

definition array_toString :: "string list \<Rightarrow> string" where
  "array_toString xs = join '','' xs"

text \<open>
  Modelled from the spec: \<^verbatim>\<open>escape\<close> is imported from the package \<^verbatim>\<open>lodash.escape\<close>, whose
  code is not among the sources; the spec only calls it an escaping function safe for HTML
  attribute and text contexts. It is modelled by the character table that package
  documents: \<^verbatim>\<open>&\<close>, \<^verbatim>\<open><\<close>, \<^verbatim>\<open>>\<close>, the double quote and the apostrophe become
  \<^verbatim>\<open>&amp;\<close>, \<^verbatim>\<open>&lt;\<close>, \<^verbatim>\<open>&gt;\<close>, \<^verbatim>\<open>&quot;\<close> and \<^verbatim>\<open>&#39;\<close>; every other character is kept.
  Its argument is converted to a string first, \<^verbatim>\<open>null\<close> and \<^verbatim>\<open>undefined\<close> to the empty string.
\<close>

definition escapeHtmlChar :: "char \<Rightarrow> string" where
  \<open>escapeHtmlChar c =
     (if c = CHR ''&'' then ''&amp;''
      else if c = CHR ''<'' then ''&lt;''
      else if c = CHR ''>'' then ''&gt;''
      else if c = CHR 0x22 then ''&quot;''
      else if c = CHR 0x27 then ''&#39;''
      else [c])\<close>

definition escape :: "string \<Rightarrow> string" where
  "escape s = concat (map escapeHtmlChar s)"

definition escape_nullable :: "string option \<Rightarrow> string" where
  "escape_nullable v = (case v of None \<Rightarrow> [] | Some s \<Rightarrow> escape s)"

text \<open>
  \<^verbatim>\<open>String.prototype.replace\<close> with a global regular expression that matches one literal
  token, and a replacer function: the subject is scanned from the left; at a match the
  replacer is called, its result is spliced in as it is, and the scan goes on behind the
  match. A replacer that throws ends the call. The second component counts the calls of the
  replacer.
\<close>

fun replace_fn :: "string \<Rightarrow> (unit \<Rightarrow> string result) \<Rightarrow> string \<Rightarrow> string result \<times> nat" where
  "replace_fn pat f [] = (Inr [], 0)"
| "replace_fn pat f (c # cs) =
     (if prefix pat (c # cs) then
        (case f () of
           Inl e \<Rightarrow> (Inl e, 1)
         | Inr r \<Rightarrow>
             (case replace_fn pat f (drop (length pat - 1) cs) of
                (Inl e, n) \<Rightarrow> (Inl e, Suc n)
              | (Inr rest, n) \<Rightarrow> (Inr (r @ rest), Suc n)))
      else
        (case replace_fn pat f cs of
           (Inl e, n) \<Rightarrow> (Inl e, n)
         | (Inr rest, n) \<Rightarrow> (Inr (c # rest), n)))"

subsection \<open>Data model\<close>

text \<open>
  Numbers other than the local ids (\<^verbatim>\<open>zoom\<close>, \<^verbatim>\<open>left\<close>, \<^verbatim>\<open>top\<close>, \<^verbatim>\<open>width\<close>, \<^verbatim>\<open>height\<close>)
  are floating point in the source; their type is the parameter \<open>'n\<close> and their conversion
  to a string is the parameter \<open>ns\<close> of the publishing functions (the conversion of a
  template literal and the one \<^verbatim>\<open>escape\<close> applies differ on negative zero only, and \<open>ns\<close>
  stands for both). An object whose keys are enumerated (\<^verbatim>\<open>tagColors\<close>) is the list of its
  entries in the order of \<^verbatim>\<open>Object.keys\<close>. Identifiers are strings; a start identifier may
  be missing (\<^verbatim>\<open>undefined\<close> or \<^verbatim>\<open>null\<close>), and the code takes the empty string for a missing
  one as well (\<^verbatim>\<open>!startId\<close>).
\<close>

record appInfo =
  app_name :: string
  app_version :: string

record 'n passage =
  p_id :: string
  p_name :: string
  p_tags :: "string list"
  p_left :: 'n
  p_top :: 'n
  p_width :: 'n
  p_height :: 'n
  p_text :: string

record 'n story =
  s_name :: string
  ifid :: string
  zoom :: 'n
  storyFormat :: string
  storyFormatVersion :: string
  stylesheet :: string
  script :: string
  tagColors :: "(string \<times> string) list"
  startPassage :: "string option"
  passages :: "'n passage list"

record format_properties =
  source :: "string option"

record format =
  properties :: "format_properties option"

definition object_keys :: "(string \<times> string) list \<Rightarrow> string list" where
  "object_keys obj = map fst obj"

subsection \<open>publishPassage\<close>

definition publishPassage :: "('n \<Rightarrow> string) \<Rightarrow> 'n passage \<Rightarrow> nat \<Rightarrow> string" where
  \<open>publishPassage ns passage localId =
     ''<tw-passagedata pid="'' @ escape (decimal localId) @ ''" '' @
     ''name="'' @ escape (p_name passage) @ ''" '' @
     ''tags="'' @ escape (join '' '' (p_tags passage)) @ ''" '' @
     ''position="'' @ ns (p_left passage) @ '','' @ ns (p_top passage) @ ''" '' @
     ''size="'' @ ns (p_width passage) @ '','' @ ns (p_height passage) @ ''">'' @
     escape (p_text passage) @ ''</tw-passagedata>''\<close>

subsection \<open>publishStory\<close>

text \<open>
  The \<^verbatim>\<open>forEach\<close> over the passages: the state is the pair of \<^verbatim>\<open>passageData\<close> and
  \<^verbatim>\<open>startLocalId\<close> (\<^term>\<open>None\<close> while it is still \<^verbatim>\<open>undefined\<close>).
\<close>

fun forEach_passages ::
  "('n \<Rightarrow> string) \<Rightarrow> string option \<Rightarrow> 'n passage list \<Rightarrow> nat \<Rightarrow> string \<times> nat option
     \<Rightarrow> string \<times> nat option" where
  "forEach_passages ns startId [] index acc = acc"
| "forEach_passages ns startId (p # ps) index (passageData, startLocalId) =
     forEach_passages ns startId ps (index + 1)
       (passageData @ publishPassage ns p (index + 1),
        if Some (p_id p) = startId then Some (index + 1) else startLocalId)"

text \<open>\<^verbatim>\<open>startLocalId || ''\<close> inside the template literal.\<close>

definition startnode_value :: "nat option \<Rightarrow> string" where
  "startnode_value startLocalId =
     (case startLocalId of None \<Rightarrow> [] | Some n \<Rightarrow> if n = 0 then [] else decimal n)"

definition tagData :: "(string \<times> string) list \<Rightarrow> string list" where
  \<open>tagData colors =
     map (\<lambda>tag. ''<tw-tag name="'' @ escape tag @ ''" color="'' @
                  escape_nullable (map_of colors tag) @ ''"></tw-tag>'')
       (object_keys colors)\<close>

text \<open>
  The returned template literal, as a function of the local variables it reads:
  \<^verbatim>\<open>startLocalId\<close>, \<^verbatim>\<open>tagData\<close> (an array, converted by \<^verbatim>\<open>+\<close> with
  \<^verbatim>\<open>Array.prototype.toString\<close>) and \<^verbatim>\<open>passageData\<close>.
\<close>

definition storydata ::
  "('n \<Rightarrow> string) \<Rightarrow> appInfo \<Rightarrow> 'n story \<Rightarrow> string option \<Rightarrow> nat option \<Rightarrow> string list
     \<Rightarrow> string \<Rightarrow> string" where
  \<open>storydata ns appInfo story formatOptions startLocalId tagArray passageData =
     ''<tw-storydata name="'' @ escape (s_name story) @ ''" '' @
     ''startnode="'' @ startnode_value startLocalId @ ''" '' @
     ''creator="'' @ escape (app_name appInfo) @ ''" '' @
     ''creator-version="'' @ escape (app_version appInfo) @ ''" '' @
     ''ifid="'' @ escape (ifid story) @ ''" '' @
     ''zoom="'' @ escape (ns (zoom story)) @ ''" '' @
     ''format="'' @ escape (storyFormat story) @ ''" '' @
     ''format-version="'' @ escape (storyFormatVersion story) @ ''" '' @
     ''options="'' @ escape_nullable formatOptions @ ''" hidden>'' @
     ''<style role="stylesheet" id="twine-user-stylesheet" '' @
     ''type="text/twine-css">'' @
     stylesheet story @
     ''</style>'' @
     ''<script role="script" id="twine-user-script" '' @
     ''type="text/twine-javascript">'' @
     script story @
     ''</script>'' @
     array_toString tagArray @
     passageData @
     ''</tw-storydata>''\<close>

definition publishStory ::
  "('n \<Rightarrow> string) \<Rightarrow> appInfo \<Rightarrow> 'n story \<Rightarrow> string option \<Rightarrow> string option \<Rightarrow> bool
     \<Rightarrow> string result" where
  \<open>publishStory ns appInfo story formatOptions startId0 startOptional =
     (let startId = js_or startId0 (startPassage story) in
      if \<not> startOptional \<and> \<not> truthy startId then Inl NoStartPoint
      else if \<not> startOptional \<and>
              find (\<lambda>p. Some (p_id p) = startId) (passages story) = None
      then Inl StartPointNotFound
      else
        let (passageData, startLocalId) =
              forEach_passages ns startId (passages story) 0 ([], None)
        in Inr (storydata ns appInfo story formatOptions startLocalId
                  (tagData (tagColors story)) passageData))\<close>

subsection \<open>publishStoryWithFormat\<close>

text \<open>
  The run of \<^verbatim>\<open>publishStoryWithFormat\<close>: its result, and the number of times the second
  replacer called \<^verbatim>\<open>publishStory\<close> (with four arguments, so \<^verbatim>\<open>startOptional\<close> is
  \<^verbatim>\<open>undefined\<close>, which is falsy).
\<close>

definition publishStoryWithFormat_run ::
  "('n \<Rightarrow> string) \<Rightarrow> appInfo \<Rightarrow> 'n story \<Rightarrow> format \<Rightarrow> string option \<Rightarrow> string option
     \<Rightarrow> string result \<times> nat" where
  \<open>publishStoryWithFormat_run ns appInfo story format formatOptions startId =
     (case properties format of
        None \<Rightarrow> (Inl MissingTemplateSource, 0)
      | Some props \<Rightarrow>
          (case source props of
             None \<Rightarrow> (Inl MissingTemplateSource, 0)
           | Some src \<Rightarrow>
               if src = [] then (Inl MissingTemplateSource, 0)
               else
                 (case fst (replace_fn ''{{STORY_NAME}}''
                              (\<lambda>_. Inr (escape (s_name story))) src) of
                    Inl e \<Rightarrow> (Inl e, 0)
                  | Inr output \<Rightarrow>
                      replace_fn ''{{STORY_DATA}}''
                        (\<lambda>_. publishStory ns appInfo story formatOptions startId False)
                        output)))\<close>

definition publishStoryWithFormat ::
  "('n \<Rightarrow> string) \<Rightarrow> appInfo \<Rightarrow> 'n story \<Rightarrow> format \<Rightarrow> string option \<Rightarrow> string option
     \<Rightarrow> string result" where
  "publishStoryWithFormat ns appInfo story format formatOptions startId =
     fst (publishStoryWithFormat_run ns appInfo story format formatOptions startId)"

definition publishStory_calls ::
  "('n \<Rightarrow> string) \<Rightarrow> appInfo \<Rightarrow> 'n story \<Rightarrow> format \<Rightarrow> string option \<Rightarrow> string option
     \<Rightarrow> nat" where
  "publishStory_calls ns appInfo story format formatOptions startId =
     snd (publishStoryWithFormat_run ns appInfo story format formatOptions startId)"

subsection \<open>publishArchive\<close>

definition publishArchive :: "('n \<Rightarrow> string) \<Rightarrow> 'n story list \<Rightarrow> appInfo \<Rightarrow> string result" where
  "publishArchive ns stories appInfo =
     foldl
       (\<lambda>output story.
          case output of
            Inl e \<Rightarrow> Inl e
          | Inr out \<Rightarrow>
              (case publishStory ns appInfo story None None True of
                 Inl e \<Rightarrow> Inl e
               | Inr data \<Rightarrow> Inr (out @ data @ [CHR 0x0A, CHR 0x0A])))
       (Inr []) stories"

subsection \<open>Notions used to state the properties\<close>

text \<open>
  The characters \<^verbatim>\<open>escape\<close> replaces, and the bodies of the entities it writes for them.
  A string is well escaped when none of \<^verbatim>\<open><\<close>, \<^verbatim>\<open>>\<close>, the double quote and the
  apostrophe occurs in it and every \<^verbatim>\<open>&\<close> in it starts one of the five entities. A string
  is plain when none of the five characters occurs in it.
\<close>

definition special_chars :: "char list" where
  \<open>special_chars = [CHR ''&'', CHR ''<'', CHR ''>'', CHR 0x22, CHR 0x27]\<close>

definition entity_bodies :: "string list" where
  \<open>entity_bodies = [''amp;'', ''lt;'', ''gt;'', ''quot;'', ''#39;'']\<close>

fun well_escaped :: "string \<Rightarrow> bool" where
  "well_escaped [] = True"
| "well_escaped (c # cs) =
     ((if c = CHR ''&'' then list_ex (\<lambda>e. prefix e cs) entity_bodies
       else c \<notin> set special_chars) \<and> well_escaped cs)"

definition plain :: "string \<Rightarrow> bool" where
  "plain s = list_all (\<lambda>c. c \<notin> set special_chars) s"

text \<open>
  The passage elements of a collection, numbered from \<open>k + 1\<close> in collection order, and the
  local id of the passage a start identifier selects: the last passage of the collection
  with that identifier, counted from 1.
\<close>

fun numbered_passages :: "('n \<Rightarrow> string) \<Rightarrow> nat \<Rightarrow> 'n passage list \<Rightarrow> string" where
  "numbered_passages ns k [] = []"
| "numbered_passages ns k (p # ps) = publishPassage ns p (Suc k) @ numbered_passages ns (Suc k) ps"

fun local_id_of :: "string option \<Rightarrow> nat \<Rightarrow> 'n passage list \<Rightarrow> nat option" where
  "local_id_of sid k [] = None"
| "local_id_of sid k (p # ps) =
     (case local_id_of sid (Suc k) ps of
        Some m \<Rightarrow> Some m
      | None \<Rightarrow> if Some (p_id p) = sid then Some (Suc k) else None)"

text \<open>
  Literal substitution of a token, as the spec words it: the subject is cut at the
  occurrences of the token (from the left, occurrences not overlapping) and the pieces are
  joined with the value, which is copied as it is.
\<close>

fun split_on :: "string \<Rightarrow> string \<Rightarrow> string list" where
  "split_on tok [] = [] # []"
| "split_on tok (c # cs) =
     (if prefix tok (c # cs) then [] # split_on tok (drop (length tok - 1) cs)
      else (case split_on tok cs of
              [] \<Rightarrow> [c] # []
            | piece # pieces \<Rightarrow> (c # piece) # pieces))"

definition subst_literal :: "string \<Rightarrow> string \<Rightarrow> string \<Rightarrow> string" where
  "subst_literal tok v s = join v (split_on tok s)"

definition occurrences :: "string \<Rightarrow> string \<Rightarrow> nat" where
  "occurrences tok s = length (split_on tok s) - 1"

text \<open>
  The effective start identifier as the spec words it: the explicit start identifier
  argument if one is given, else the start passage the story declares.
\<close>

definition effective_start :: "string option \<Rightarrow> 'n story \<Rightarrow> string option" where
  "effective_start sid S = (if truthy sid then sid else startPassage S)"

text \<open>The format descriptor has a template: \<^verbatim>\<open>format.properties.source\<close> is truthy.\<close>

definition has_source :: "format \<Rightarrow> bool" where
  "has_source fmt = (case properties fmt of None \<Rightarrow> False | Some props \<Rightarrow> truthy (source props))"

subsection \<open>Example inputs\<close>

text \<open>
  A story of two passages, used to instantiate the theorems below. Its numbers are natural
  numbers, written by \<^const>\<open>decimal\<close>.
\<close>

definition ex_app :: appInfo where
  \<open>ex_app = \<lparr>app_name = ''Twine'', app_version = ''2.4.0''\<rparr>\<close>

definition ex_passage1 :: "nat passage" where
  \<open>ex_passage1 =
     \<lparr>p_id = ''a1'', p_name = ''Start'', p_tags = [''intro'', ''dark''], p_left = 10, p_top = 20,
      p_width = 100, p_height = 100, p_text = ''Go <east> & "west" $1''\<rparr>\<close>

definition ex_passage2 :: "nat passage" where
  \<open>ex_passage2 =
     \<lparr>p_id = ''b2'', p_name = ''End'', p_tags = [], p_left = 30, p_top = 40,
      p_width = 100, p_height = 100, p_text = ''Done''\<rparr>\<close>

definition ex_story :: "nat story" where
  \<open>ex_story =
     \<lparr>s_name = ''A&B'', ifid = ''IFID-1'', zoom = 1, storyFormat = ''Harlowe'',
      storyFormatVersion = ''3.2.0'', stylesheet = ''a>b{}'', script = ''x&&y'',
      tagColors = [(''intro'', ''red'')], startPassage = Some ''b2'',
      passages = [ex_passage1, ex_passage2]\<rparr>\<close>

text \<open>A loaded story format with the template \<open>src\<close>.\<close>

definition ex_format :: "string \<Rightarrow> format" where
  "ex_format src = \<lparr>properties = Some \<lparr>source = Some src\<rparr>\<rparr>"

section \<open>Auxiliary facts\<close>

declare decimal.simps [simp del]

lemmas ex_defs = ex_app_def ex_passage1_def ex_passage2_def ex_story_def

subsection \<open>Escaping and decimal numbers\<close>

lemma escape_Nil: "escape [] = []"
  by (simp add: escape_def)

lemma escape_Cons: "escape (c # cs) = escapeHtmlChar c @ escape cs"
  by (simp add: escape_def)

lemma escape_append: "escape (a @ b) = escape a @ escape b"
  by (simp add: escape_def)

lemma well_escaped_escapeHtmlChar:
  "well_escaped r \<Longrightarrow> well_escaped (escapeHtmlChar c @ r)"
  by (simp add: escapeHtmlChar_def entity_bodies_def special_chars_def)

lemma well_escaped_escape: "well_escaped (escape s)"
  by (induction s) (simp_all add: escape_Nil escape_Cons well_escaped_escapeHtmlChar)

lemma plain_Nil: "plain []"
  by (simp add: plain_def)

lemma plain_Cons: "plain (c # cs) \<longleftrightarrow> c \<notin> set special_chars \<and> plain cs"
  by (simp add: plain_def)

lemma plain_append: "plain (a @ b) \<longleftrightarrow> plain a \<and> plain b"
  by (simp add: plain_def)

lemma escape_plain: "plain s \<Longrightarrow> escape s = s"
  by (induction s) (auto simp: escape_Nil escape_Cons plain_Cons escapeHtmlChar_def special_chars_def)

lemma well_escaped_plain: "plain s \<Longrightarrow> well_escaped s"
  by (induction s) (auto simp: plain_Cons special_chars_def)

lemma digit_in_digits: "k < 10 \<Longrightarrow> ''0123456789'' ! k \<in> set ''0123456789''"
  using nth_mem[of k "''0123456789''"] by simp

lemma set_decimal: "set (decimal n) \<subseteq> set ''0123456789''"
proof (induction n rule: decimal.induct)
  case (1 n)
  show ?case
  proof (cases "n < 10")
    case True
    then show ?thesis using digit_in_digits[of n] by (subst decimal.simps) simp
  next
    case False
    have "n mod 10 < 10" by simp
    from digit_in_digits[OF this] 1[OF False] False show ?thesis
      by (subst decimal.simps) simp
  qed
qed

lemma plain_decimal: "plain (decimal n)"
  using set_decimal[of n] by (auto simp: plain_def list_all_iff special_chars_def)

lemma join_space: "join [CHR '' ''] (t # ts) = t @ concat (map (\<lambda>u. CHR '' '' # u) ts)"
  by (induction ts arbitrary: t) simp_all

text \<open>The equations that evaluate the publishing functions on a concrete input.\<close>

lemmas eval_defs =
  publishStory_def publishPassage_def storydata_def tagData_def
  object_keys_def array_toString_def startnode_value_def js_or_def truthy_def
  escape_nullable_def escape_Nil escape_Cons escapeHtmlChar_def decimal.simps

subsection \<open>The passage loop and the two modes of publishStory\<close>

lemma forEach_passages_eq:
  "forEach_passages ns sid ps k (pd, sl) =
     (pd @ numbered_passages ns k ps,
      case local_id_of sid k ps of Some m \<Rightarrow> Some m | None \<Rightarrow> sl)"
  by (induction ps arbitrary: k pd sl) (auto split: option.splits)

lemma local_id_of_None:
  "local_id_of sid k ps = None \<longleftrightarrow> (\<forall>p\<in>set ps. Some (p_id p) \<noteq> sid)"
proof (induction ps arbitrary: k)
  case Nil
  then show ?case by simp
next
  case (Cons p ps)
  show ?case
  proof (cases "local_id_of sid (Suc k) ps")
    case None
    with Cons.IH[of "Suc k"] show ?thesis by simp
  next
    case (Some m)
    with Cons.IH[of "Suc k"] show ?thesis by auto
  qed
qed

lemma local_id_of_last:
  "i < length ps \<Longrightarrow> Some (p_id (ps ! i)) = sid \<Longrightarrow>
   (\<forall>j. i < j \<and> j < length ps \<longrightarrow> Some (p_id (ps ! j)) \<noteq> sid) \<Longrightarrow>
   local_id_of sid k ps = Some (k + i + 1)"
proof (induction ps arbitrary: i k)
  case Nil
  then show ?case by simp
next
  case (Cons p ps)
  show ?case
  proof (cases i)
    case 0
    have "\<forall>q\<in>set ps. Some (p_id q) \<noteq> sid"
    proof
      fix q assume "q \<in> set ps"
      then obtain j where j: "j < length ps" "ps ! j = q" by (auto simp: in_set_conv_nth)
      with Cons.prems(3) 0 have "Some (p_id ((p # ps) ! Suc j)) \<noteq> sid" by auto
      with j show "Some (p_id q) \<noteq> sid" by simp
    qed
    then have "local_id_of sid (Suc k) ps = None" by (simp add: local_id_of_None)
    with Cons.prems(2) 0 show ?thesis by simp
  next
    case (Suc i')
    have a: "i' < length ps" using Cons.prems(1) Suc by simp
    have b: "Some (p_id (ps ! i')) = sid" using Cons.prems(2) Suc by simp
    have c: "\<forall>j. i' < j \<and> j < length ps \<longrightarrow> Some (p_id (ps ! j)) \<noteq> sid"
    proof (intro allI impI)
      fix j assume "i' < j \<and> j < length ps"
      with Cons.prems(3) Suc have "Some (p_id ((p # ps) ! Suc j)) \<noteq> sid" by auto
      then show "Some (p_id (ps ! j)) \<noteq> sid" by simp
    qed
    from Cons.IH[OF a b c, of "Suc k"] Suc show ?thesis by simp
  qed
qed

lemma local_id_of_ids:
  "map p_id ps = map p_id qs \<Longrightarrow> local_id_of sid k ps = local_id_of sid k qs"
proof (induction ps arbitrary: qs k)
  case Nil
  then show ?case by simp
next
  case (Cons p ps)
  then obtain q qs' where qs: "qs = q # qs'" "p_id p = p_id q" "map p_id ps = map p_id qs'"
    by (cases qs) auto
  with Cons.IH[of qs' "Suc k"] show ?case by simp
qed

lemma numbered_passages_concat:
  "numbered_passages ns k ps =
     concat (map (\<lambda>i. publishPassage ns (ps ! i) (k + i + 1)) [0..<length ps])"
proof (induction ps arbitrary: k)
  case Nil
  then show ?case by simp
next
  case (Cons p ps)
  have "[0..<length (p # ps)] = 0 # map Suc [0..<length ps]"
    by (simp add: upt_conv_Cons map_Suc_upt del: upt_Suc)
  then show ?case by (simp add: Cons.IH comp_def del: upt_Suc)
qed

lemma numbered_passages_append:
  "numbered_passages ns k (xs @ ys) =
     numbered_passages ns k xs @ numbered_passages ns (k + length xs) ys"
  by (induction xs arbitrary: k) simp_all

lemma numbered_passages_update:
  assumes "i < length ps"
  shows "numbered_passages ns 0 (ps[i := p]) =
     numbered_passages ns 0 (take i ps) @ publishPassage ns p (Suc i) @
     numbered_passages ns (Suc i) (drop (Suc i) ps)"
proof -
  have "ps[i := p] = take i ps @ p # drop (Suc i) ps"
    using assms by (rule upd_conv_take_nth_drop)
  then show ?thesis
    using assms by (simp add: numbered_passages_append)
qed

lemma find_None_local: "find (\<lambda>p. Some (p_id p) = sid) ps = None \<longleftrightarrow> local_id_of sid k ps = None"
  by (auto simp: find_None_iff local_id_of_None)

lemma publishStory_lenient:
  "publishStory ns ai S fo sid True =
     Inr (storydata ns ai S fo (local_id_of (js_or sid (startPassage S)) 0 (passages S))
            (tagData (tagColors S)) (numbered_passages ns 0 (passages S)))"
  by (simp add: publishStory_def Let_def forEach_passages_eq split: option.splits)

lemma publishStory_strict:
  "publishStory ns ai S fo sid False =
     (if \<not> truthy (js_or sid (startPassage S)) then Inl NoStartPoint
      else if local_id_of (js_or sid (startPassage S)) 0 (passages S) = None then Inl StartPointNotFound
      else publishStory ns ai S fo sid True)"
  by (simp add: publishStory_def Let_def find_None_local[of _ _ 0])

lemma publishStory_eq:
  "publishStory ns ai S fo sid so =
     (if \<not> so \<and> \<not> truthy (js_or sid (startPassage S)) then Inl NoStartPoint
      else if \<not> so \<and> local_id_of (js_or sid (startPassage S)) 0 (passages S) = None
      then Inl StartPointNotFound
      else Inr (storydata ns ai S fo (local_id_of (js_or sid (startPassage S)) 0 (passages S))
                  (tagData (tagColors S)) (numbered_passages ns 0 (passages S))))"
  by (cases so) (simp_all add: publishStory_lenient publishStory_strict)

lemma publishStory_no_template_error:
  "publishStory ns ai S fo sid so \<noteq> Inl MissingTemplateSource"
  by (simp add: publishStory_eq)

subsection \<open>The shape of the elements\<close>

lemma storydata_startnode_Some:
  \<open>\<exists>rest. storydata ns ai S fo (Some (Suc m)) td pd =
     ''<tw-storydata name="'' @ escape (s_name S) @ ''" startnode="'' @ decimal (Suc m) @
     ''" creator="'' @ rest\<close>
  by (simp add: storydata_def startnode_value_def)

lemma storydata_startnode_None:
  \<open>\<exists>rest. storydata ns ai S fo None td pd =
     ''<tw-storydata name="'' @ escape (s_name S) @ ''" startnode="" creator="'' @ rest\<close>
  by (simp add: storydata_def startnode_value_def)

lemma storydata_passages:
  \<open>\<exists>front. storydata ns ai S fo sl td pd = front @ pd @ ''</tw-storydata>''\<close>
  unfolding storydata_def 
  by (metis append.assoc)

lemma storydata_around_passages:
  \<open>\<exists>front. \<forall>pd. storydata ns ai S fo sl td pd = front @ pd @ ''</tw-storydata>''\<close>
  unfolding storydata_def
  apply (rule exI)
  apply (rule allI)
  apply (simp only: append_assoc[symmetric] append_same_eq)
  done

lemma storydata_around_name:
  \<open>\<exists>rest. \<forall>nm. storydata ns ai (S\<lparr>s_name := nm\<rparr>) fo sl td pd =
      ''<tw-storydata name="'' @ escape nm @ rest\<close>
  by (simp add: storydata_def)

lemma storydata_passages_field:
  "storydata ns ai (S\<lparr>passages := ps\<rparr>) fo sl td pd = storydata ns ai S fo sl td pd"
  by (simp add: storydata_def)

lemma publishPassage_around_text:
  \<open>\<exists>front. \<forall>tx. publishPassage ns (P\<lparr>p_text := tx\<rparr>) n =
      front @ escape tx @ ''</tw-passagedata>''\<close>
  by (rule exI[of _ \<open>''<tw-passagedata pid="'' @ decimal n @ ''" name="'' @ escape (p_name P) @
        ''" tags="'' @ escape (join '' '' (p_tags P)) @
        ''" position="'' @ ns (p_left P) @ '','' @ ns (p_top P) @
        ''" size="'' @ ns (p_width P) @ '','' @ ns (p_height P) @ ''">''\<close>])
     (simp add: publishPassage_def escape_plain[OF plain_decimal])

subsection \<open>Replacing with a function is literal substitution\<close>

lemma split_on_not_Nil: "split_on tok s \<noteq> []"
  by (induction tok s rule: split_on.induct) (auto split: list.splits)

lemma join_Nil_Cons: "xs \<noteq> [] \<Longrightarrow> join v ([] # xs) = v @ join v xs"
  by (cases xs) simp_all

lemma join_Cons_Cons: "join v ((c # p) # ps) = c # join v (p # ps)"
  by (cases ps) simp_all

lemma subst_literal_Nil: "subst_literal tok v [] = []"
  by (simp add: subst_literal_def)

lemma subst_literal_Cons:
  "subst_literal tok v (c # cs) =
     (if prefix tok (c # cs) then v @ subst_literal tok v (drop (length tok - 1) cs)
      else c # subst_literal tok v cs)"
proof (cases "split_on tok cs")
  case Nil
  then show ?thesis using split_on_not_Nil[of tok cs] by simp
next
  case (Cons p ps)
  then show ?thesis
    by (simp add: subst_literal_def join_Nil_Cons split_on_not_Nil join_Cons_Cons)
qed

lemma occurrences_Nil: "occurrences tok [] = 0"
  by (simp add: occurrences_def)

lemma occurrences_Cons:
  "occurrences tok (c # cs) =
     (if prefix tok (c # cs) then Suc (occurrences tok (drop (length tok - 1) cs))
      else occurrences tok cs)"
proof (cases "split_on tok cs")
  case Nil
  then show ?thesis using split_on_not_Nil[of tok cs] by simp
next
  case (Cons p ps)
  have "length (split_on tok (drop (length tok - 1) cs)) \<noteq> 0"
    using split_on_not_Nil[of tok "drop (length tok - 1) cs"] by simp
  with Cons show ?thesis
    by (simp add: occurrences_def)
qed

lemma subst_literal_no_occurrence: "occurrences tok s = 0 \<Longrightarrow> subst_literal tok v s = s"
  by (induction tok s rule: split_on.induct)
     (simp_all add: subst_literal_Nil subst_literal_Cons occurrences_Cons split: if_splits)

lemma split_on_first:
  "tok \<noteq> [] \<Longrightarrow> hd tok \<notin> set a \<Longrightarrow> split_on tok (a @ tok @ b) = a # split_on tok b"
proof (induction a)
  case Nil
  then obtain t ts where tok: "tok = t # ts" by (cases tok) auto
  then show ?case by simp
next
  case (Cons c a)
  then obtain t ts where tok: "tok = t # ts" by (cases tok) auto
  with Cons show ?case by simp
qed

lemma split_on_none:
  "tok \<noteq> [] \<Longrightarrow> hd tok \<notin> set a \<Longrightarrow> split_on tok a = [a]"
proof (induction a)
  case Nil
  then show ?case by simp
next
  case (Cons c a)
  then obtain t ts where tok: "tok = t # ts" by (cases tok) auto
  with Cons show ?case by simp
qed

lemma subst_literal_first:
  "tok \<noteq> [] \<Longrightarrow> hd tok \<notin> set a \<Longrightarrow>
   subst_literal tok v (a @ tok @ b) = a @ v @ subst_literal tok v b"
proof -
  assume a: "tok \<noteq> []" "hd tok \<notin> set a"
  obtain p ps where "split_on tok b = p # ps"
    using split_on_not_Nil[of tok b] by (cases "split_on tok b") auto
  then show ?thesis
    by (simp add: subst_literal_def split_on_first[OF a])
qed

lemma subst_literal_none:
  "tok \<noteq> [] \<Longrightarrow> hd tok \<notin> set a \<Longrightarrow> subst_literal tok v a = a"
  by (simp add: subst_literal_def split_on_none)

lemma replace_fn_returns:
  "f () = Inr v \<Longrightarrow> replace_fn tok f s = (Inr (subst_literal tok v s), occurrences tok s)"
  by (induction tok s rule: split_on.induct)
     (simp_all add: subst_literal_Nil subst_literal_Cons occurrences_Nil occurrences_Cons)

lemma replace_fn_throws:
  "f () = Inl e \<Longrightarrow>
   replace_fn tok f s = (if occurrences tok s = 0 then (Inr s, 0) else (Inl e, 1))"
  by (induction tok s rule: split_on.induct)
     (simp_all add: occurrences_Nil occurrences_Cons)

lemma run_eq:
  assumes "properties fmt = Some props" "source props = Some src" "src \<noteq> []"
  shows "publishStoryWithFormat_run ns ai S fmt fo sid =
     (case publishStory ns ai S fo sid False of
        Inr frag \<Rightarrow>
          (Inr (subst_literal ''{{STORY_DATA}}'' frag
                  (subst_literal ''{{STORY_NAME}}'' (escape (s_name S)) src)),
           occurrences ''{{STORY_DATA}}''
             (subst_literal ''{{STORY_NAME}}'' (escape (s_name S)) src))
      | Inl e \<Rightarrow>
          if occurrences ''{{STORY_DATA}}''
               (subst_literal ''{{STORY_NAME}}'' (escape (s_name S)) src) = 0
          then (Inr (subst_literal ''{{STORY_NAME}}'' (escape (s_name S)) src), 0)
          else (Inl e, 1))"
proof -
  have n: "replace_fn ''{{STORY_NAME}}'' (\<lambda>_. Inr (escape (s_name S))) src =
      (Inr (subst_literal ''{{STORY_NAME}}'' (escape (s_name S)) src),
       occurrences ''{{STORY_NAME}}'' src)"
    by (rule replace_fn_returns) simp
  show ?thesis
  proof (cases "publishStory ns ai S fo sid False")
    case (Inl e)
    have d: "replace_fn tok (\<lambda>_. Inl e) s =
        (if occurrences tok s = 0 then (Inr s, 0) else (Inl e, 1))" for tok s
      by (rule replace_fn_throws) simp
    from Inl show ?thesis
      using assms by (simp add: publishStoryWithFormat_run_def n d)
  next
    case (Inr frag)
    have d: "replace_fn tok (\<lambda>_. Inr frag) s =
        (Inr (subst_literal tok frag s), occurrences tok s)" for tok s
      by (rule replace_fn_returns) simp
    from Inr show ?thesis
      using assms by (simp add: publishStoryWithFormat_run_def n d)
  qed
qed

lemma run_no_source:
  "\<not> has_source fmt \<Longrightarrow>
   publishStoryWithFormat_run ns ai S fmt fo sid = (Inl MissingTemplateSource, 0)"
  by (auto simp: has_source_def publishStoryWithFormat_run_def truthy_def split: option.splits)

subsection \<open>The archive loop\<close>

lemma publishArchive_foldl:
  assumes F: "\<And>S. publishStory ns appInfo S None None True = Inr (F S)"
  shows "foldl
       (\<lambda>output story.
          case output of
            Inl e \<Rightarrow> Inl e
          | Inr out \<Rightarrow>
              (case publishStory ns appInfo story None None True of
                 Inl e \<Rightarrow> Inl e
               | Inr data \<Rightarrow> Inr (out @ data @ [CHR 0x0A, CHR 0x0A])))
       (Inr acc) stories =
     Inr (acc @ concat (map (\<lambda>S. F S @ [CHR 0x0A, CHR 0x0A]) stories))"
  by (induction stories arbitrary: acc) (simp_all add: F)

section \<open>The claims\<close>

subsection \<open>C1: the content of the story element\<close>

text \<open>
  C1. The claim: the content of the story element is the stylesheet element, the script
  element, one tag element per entry of \<^verbatim>\<open>tagColors\<close> and the passage elements, with
  nothing else between these parts. The source builds \<^verbatim>\<open>tagData\<close> with \<^verbatim>\<open>map\<close> and adds the
  array to a string, which joins its elements with commas; \<^verbatim>\<open>passageData\<close>, beside it, is a
  string built with \<^verbatim>\<open>+=\<close>. With two tag colours the output therefore has a comma between
  the two tag elements, as the evaluation below shows.
\<close>

theorem publishStory_two_tag_colors:
  \<open>publishStory decimal ex_app
      (ex_story\<lparr>tagColors := [(''intro'', ''red''), (''dark'', ''blue'')]\<rparr>) None None True =
     Inr ''<tw-storydata name="A&amp;B" startnode="2" creator="Twine" creator-version="2.4.0" ifid="IFID-1" zoom="1" format="Harlowe" format-version="3.2.0" options="" hidden><style role="stylesheet" id="twine-user-stylesheet" type="text/twine-css">a>b{}</style><script role="script" id="twine-user-script" type="text/twine-javascript">x&&y</script><tw-tag name="intro" color="red"></tw-tag>,<tw-tag name="dark" color="blue"></tw-tag><tw-passagedata pid="1" name="Start" tags="intro dark" position="10,20" size="100,100">Go &lt;east&gt; &amp; &quot;west&quot; $1</tw-passagedata><tw-passagedata pid="2" name="End" tags="" position="30,40" size="100,100">Done</tw-passagedata></tw-storydata>''\<close>
  by (simp add: ex_defs eval_defs)

subsection \<open>C2: local ids and the start node\<close>

text \<open>
  C2. For every story with \<open>N\<close> passages, \<^verbatim>\<open>publishStory\<close> writes the passage elements in
  collection order with the local ids \<open>1..N\<close> (the \<open>k\<close>-th element, counted from 0, carries
  \<^verbatim>\<open>pid\<close> \<open>k + 1\<close>). The attribute \<^verbatim>\<open>startnode\<close> is the local id \<open>i + 1\<close> of the passage at
  index \<open>i\<close> whose identifier equals the resolved start identifier (the last such passage,
  should several carry it); when no passage carries it, \<^verbatim>\<open>startnode\<close> is empty in lenient
  mode and the call raises in strict mode. In strict mode the output, when there is one, is
  the lenient one.
\<close>

theorem publishStory_local_ids:
  \<open>(\<forall>i<length (passages S).
       Some (p_id (passages S ! i)) = js_or sid (startPassage S) \<and>
       (\<forall>j. i < j \<and> j < length (passages S) \<longrightarrow>
            Some (p_id (passages S ! j)) \<noteq> js_or sid (startPassage S)) \<longrightarrow>
       publishStory ns ai S fo sid True =
         Inr (storydata ns ai S fo (Some (Suc i)) (tagData (tagColors S))
                (concat (map (\<lambda>k. publishPassage ns (passages S ! k) (Suc k))
                           [0..<length (passages S)]))) \<and>
       publishStory ns ai S fo sid False =
         (if truthy (js_or sid (startPassage S))
          then publishStory ns ai S fo sid True else Inl NoStartPoint))
    \<and> ((\<forall>p\<in>set (passages S). Some (p_id p) \<noteq> js_or sid (startPassage S)) \<longrightarrow>
       publishStory ns ai S fo sid True =
         Inr (storydata ns ai S fo None (tagData (tagColors S))
                (concat (map (\<lambda>k. publishPassage ns (passages S ! k) (Suc k))
                           [0..<length (passages S)]))) \<and>
       (\<exists>e. publishStory ns ai S fo sid False = Inl e))
    \<and> (\<forall>m td pd. \<exists>rest. storydata ns ai S fo (Some (Suc m)) td pd =
          ''<tw-storydata name="'' @ escape (s_name S) @ ''" startnode="'' @ decimal (Suc m) @
          ''" creator="'' @ rest)
    \<and> (\<forall>td pd. \<exists>rest. storydata ns ai S fo None td pd =
          ''<tw-storydata name="'' @ escape (s_name S) @ ''" startnode="" creator="'' @ rest)
    \<and> (\<forall>sl td pd. \<exists>front. storydata ns ai S fo sl td pd = front @ pd @ ''</tw-storydata>'')
    \<and> (\<forall>p k. \<exists>rest. publishPassage ns p (Suc k) =
          ''<tw-passagedata pid="'' @ decimal (Suc k) @ ''" name="'' @ rest)\<close>
proof -
  let ?r = "js_or sid (startPassage S)"
  let ?ps = "passages S"
  let ?pd = "concat (map (\<lambda>k. publishPassage ns (?ps ! k) (Suc k)) [0..<length ?ps])"
  have pd: "numbered_passages ns 0 ?ps = ?pd"
    by (simp add: numbered_passages_concat)
  have found: "publishStory ns ai S fo sid True =
         Inr (storydata ns ai S fo (Some (Suc i)) (tagData (tagColors S)) ?pd) \<and>
       publishStory ns ai S fo sid False =
         (if truthy ?r then publishStory ns ai S fo sid True else Inl NoStartPoint)"
    if "i < length ?ps" "Some (p_id (?ps ! i)) = ?r"
       "\<forall>j. i < j \<and> j < length ?ps \<longrightarrow> Some (p_id (?ps ! j)) \<noteq> ?r" for i
  proof -
    have "local_id_of ?r 0 ?ps = Some (Suc i)"
      using local_id_of_last[OF that, of 0] by simp
    then show ?thesis
      by (simp add: publishStory_lenient publishStory_strict pd)
  qed
  have missing: "publishStory ns ai S fo sid True =
         Inr (storydata ns ai S fo None (tagData (tagColors S)) ?pd) \<and>
       (\<exists>e. publishStory ns ai S fo sid False = Inl e)"
    if "\<forall>p\<in>set ?ps. Some (p_id p) \<noteq> ?r"
  proof -
    have "local_id_of ?r 0 ?ps = None"
      using that by (simp add: local_id_of_None)
    then show ?thesis
      by (simp add: publishStory_lenient publishStory_strict pd)
  qed
  have pid: \<open>\<exists>rest. publishPassage ns p (Suc k) =
          ''<tw-passagedata pid="'' @ decimal (Suc k) @ ''" name="'' @ rest\<close> for p k
    by (simp add: publishPassage_def escape_plain[OF plain_decimal])
  have c1: "\<forall>i<length ?ps.
       Some (p_id (?ps ! i)) = ?r \<and>
       (\<forall>j. i < j \<and> j < length ?ps \<longrightarrow> Some (p_id (?ps ! j)) \<noteq> ?r) \<longrightarrow>
       publishStory ns ai S fo sid True =
         Inr (storydata ns ai S fo (Some (Suc i)) (tagData (tagColors S)) ?pd) \<and>
       publishStory ns ai S fo sid False =
         (if truthy ?r then publishStory ns ai S fo sid True else Inl NoStartPoint)"
    using found by blast
  have c2: "(\<forall>p\<in>set ?ps. Some (p_id p) \<noteq> ?r) \<longrightarrow>
       publishStory ns ai S fo sid True =
         Inr (storydata ns ai S fo None (tagData (tagColors S)) ?pd) \<and>
       (\<exists>e. publishStory ns ai S fo sid False = Inl e)"
    using missing by blast
  show ?thesis
    apply (intro conjI)
         apply (rule c1)
        apply (rule c2)
       apply (intro allI, rule storydata_startnode_Some)
      apply (intro allI, rule storydata_startnode_None)
     apply (intro allI, rule storydata_passages)
    apply (intro allI, rule pid)
    done
qed

theorem publishStory_local_ids_witness:
  \<open>publishStory decimal ex_app ex_story None None False =
     Inr ''<tw-storydata name="A&amp;B" startnode="2" creator="Twine" creator-version="2.4.0" ifid="IFID-1" zoom="1" format="Harlowe" format-version="3.2.0" options="" hidden><style role="stylesheet" id="twine-user-stylesheet" type="text/twine-css">a>b{}</style><script role="script" id="twine-user-script" type="text/twine-javascript">x&&y</script><tw-tag name="intro" color="red"></tw-tag><tw-passagedata pid="1" name="Start" tags="intro dark" position="10,20" size="100,100">Go &lt;east&gt; &amp; &quot;west&quot; $1</tw-passagedata><tw-passagedata pid="2" name="End" tags="" position="30,40" size="100,100">Done</tw-passagedata></tw-storydata>''
   \<and> publishStory decimal ex_app ex_story None None True =
       publishStory decimal ex_app ex_story None None False\<close>
proof -
  have r: "js_or None (startPassage ex_story) = Some ''b2''"
    by (simp add: ex_defs js_or_def truthy_def)
  have hyp: "Some (p_id (passages ex_story ! 1)) = js_or None (startPassage ex_story) \<and>
       (\<forall>j. 1 < j \<and> j < length (passages ex_story) \<longrightarrow>
            Some (p_id (passages ex_story ! j)) \<noteq> js_or None (startPassage ex_story))"
    by (simp add: r) (simp add: ex_defs)
  have len: "1 < length (passages ex_story)"
    by (simp add: ex_defs)
  from publishStory_local_ids[of ex_story None decimal ex_app None]
  have "\<forall>i<length (passages ex_story).
       Some (p_id (passages ex_story ! i)) = js_or None (startPassage ex_story) \<and>
       (\<forall>j. i < j \<and> j < length (passages ex_story) \<longrightarrow>
            Some (p_id (passages ex_story ! j)) \<noteq> js_or None (startPassage ex_story)) \<longrightarrow>
       publishStory decimal ex_app ex_story None None True =
         Inr (storydata decimal ex_app ex_story None (Some (Suc i)) (tagData (tagColors ex_story))
                (concat (map (\<lambda>k. publishPassage decimal (passages ex_story ! k) (Suc k))
                           [0..<length (passages ex_story)]))) \<and>
       publishStory decimal ex_app ex_story None None False =
         (if truthy (js_or None (startPassage ex_story))
          then publishStory decimal ex_app ex_story None None True else Inl NoStartPoint)"
    by (rule conjunct1)
  with len hyp have
    "publishStory decimal ex_app ex_story None None True =
         Inr (storydata decimal ex_app ex_story None (Some (Suc 1)) (tagData (tagColors ex_story))
                (concat (map (\<lambda>k. publishPassage decimal (passages ex_story ! k) (Suc k))
                           [0..<length (passages ex_story)]))) \<and>
       publishStory decimal ex_app ex_story None None False =
         (if truthy (js_or None (startPassage ex_story))
          then publishStory decimal ex_app ex_story None None True else Inl NoStartPoint)"
    by blast
  then have "publishStory decimal ex_app ex_story None None False =
         Inr (storydata decimal ex_app ex_story None (Some (Suc 1)) (tagData (tagColors ex_story))
                (concat (map (\<lambda>k. publishPassage decimal (passages ex_story ! k) (Suc k))
                           [0..<length (passages ex_story)])))"
    and same: "publishStory decimal ex_app ex_story None None True =
       publishStory decimal ex_app ex_story None None False"
    by (simp_all add: r truthy_def)
  then show ?thesis
    by (simp add: ex_defs storydata_def publishPassage_def tagData_def object_keys_def
        array_toString_def startnode_value_def escape_nullable_def escape_Nil escape_Cons
        escapeHtmlChar_def decimal.simps upt_rec)
qed

subsection \<open>C3: the two start errors of strict mode\<close>

text \<open>
  C3, as stated, fails for one kind of story. The code takes an empty declared start for no
  start identifier, so strict mode raises \<^verbatim>\<open>NoStartPoint\<close>; the loop of lenient mode
  still compares it with \<^verbatim>\<open>===\<close>, and a passage whose \<^verbatim>\<open>id\<close> is the empty string is
  selected: the attribute \<^verbatim>\<open>startnode\<close> is \<open>1\<close>, not empty.
\<close>

theorem publishStory_empty_identifier:
  \<open>publishStory decimal ex_app
      (ex_story\<lparr>startPassage := Some [], passages := [ex_passage1\<lparr>p_id := []\<rparr>]\<rparr>)
      None None False = Inl NoStartPoint
   \<and> publishStory decimal ex_app
      (ex_story\<lparr>startPassage := Some [], passages := [ex_passage1\<lparr>p_id := []\<rparr>]\<rparr>)
      None None True =
      Inr ''<tw-storydata name="A&amp;B" startnode="1" creator="Twine" creator-version="2.4.0" ifid="IFID-1" zoom="1" format="Harlowe" format-version="3.2.0" options="" hidden><style role="stylesheet" id="twine-user-stylesheet" type="text/twine-css">a>b{}</style><script role="script" id="twine-user-script" type="text/twine-javascript">x&&y</script><tw-tag name="intro" color="red"></tw-tag><tw-passagedata pid="1" name="Start" tags="intro dark" position="10,20" size="100,100">Go &lt;east&gt; &amp; &quot;west&quot; $1</tw-passagedata></tw-storydata>''\<close>
  by (simp add: ex_defs eval_defs)

text \<open>
  C3, amended. In strict mode \<^verbatim>\<open>publishStory\<close> raises \<^verbatim>\<open>NoStartPoint\<close> when no start
  identifier resolves (the resolved value is \<^verbatim>\<open>undefined\<close>, \<^verbatim>\<open>null\<close> or the empty string)
  and \<^verbatim>\<open>StartPointNotFound\<close> when the resolved identifier is carried by no passage; in
  both cases the result is the error and no fragment. In lenient mode the call always
  succeeds, skipping both validations, and for the same story the attribute \<^verbatim>\<open>startnode\<close>
  is empty whenever no passage carries the resolved value: that is so in the second case,
  when nothing is declared or given, and for an empty start as soon as every passage has a
  non-empty \<^verbatim>\<open>id\<close>.
\<close>

theorem publishStory_strict_errors:
  \<open>(\<not> truthy (js_or sid (startPassage S)) \<longrightarrow>
       publishStory ns ai S fo sid False = Inl NoStartPoint)
    \<and> (truthy (js_or sid (startPassage S)) \<and>
        (\<forall>p\<in>set (passages S). Some (p_id p) \<noteq> js_or sid (startPassage S)) \<longrightarrow>
       publishStory ns ai S fo sid False = Inl StartPointNotFound)
    \<and> (\<exists>out. publishStory ns ai S fo sid True = Inr out)
    \<and> ((\<forall>p\<in>set (passages S). Some (p_id p) \<noteq> js_or sid (startPassage S)) \<or>
        (\<not> truthy (js_or sid (startPassage S)) \<and> (\<forall>p\<in>set (passages S). p_id p \<noteq> [])) \<longrightarrow>
       publishStory ns ai S fo sid True =
         Inr (storydata ns ai S fo None (tagData (tagColors S))
                (concat (map (\<lambda>k. publishPassage ns (passages S ! k) (Suc k))
                           [0..<length (passages S)]))))
    \<and> (js_or sid (startPassage S) = None \<longrightarrow>
       publishStory ns ai S fo sid True =
         Inr (storydata ns ai S fo None (tagData (tagColors S))
                (concat (map (\<lambda>k. publishPassage ns (passages S ! k) (Suc k))
                           [0..<length (passages S)]))))
    \<and> (\<forall>td pd. \<exists>rest. storydata ns ai S fo None td pd =
          ''<tw-storydata name="'' @ escape (s_name S) @ ''" startnode="" creator="'' @ rest)\<close>
proof -
  let ?r = "js_or sid (startPassage S)"
  let ?ps = "passages S"
  let ?pd = "concat (map (\<lambda>k. publishPassage ns (?ps ! k) (Suc k)) [0..<length ?ps])"
  have pd: "numbered_passages ns 0 ?ps = ?pd"
    by (simp add: numbered_passages_concat)
  have c1: "\<not> truthy ?r \<longrightarrow> publishStory ns ai S fo sid False = Inl NoStartPoint"
    by (simp add: publishStory_strict)
  have c2: "truthy ?r \<and> (\<forall>p\<in>set ?ps. Some (p_id p) \<noteq> ?r) \<longrightarrow>
       publishStory ns ai S fo sid False = Inl StartPointNotFound"
    by (simp add: publishStory_strict local_id_of_None)
  have c3: "\<exists>out. publishStory ns ai S fo sid True = Inr out"
    by (simp add: publishStory_lenient)
  have nomatch: "\<forall>p\<in>set ?ps. Some (p_id p) \<noteq> ?r"
    if "\<not> truthy ?r" "\<forall>p\<in>set ?ps. p_id p \<noteq> []"
    using that by (cases ?r) (auto simp: truthy_def)
  have c4: "(\<forall>p\<in>set ?ps. Some (p_id p) \<noteq> ?r) \<or>
        (\<not> truthy ?r \<and> (\<forall>p\<in>set ?ps. p_id p \<noteq> [])) \<longrightarrow>
       publishStory ns ai S fo sid True =
         Inr (storydata ns ai S fo None (tagData (tagColors S)) ?pd)"
  proof
    assume "(\<forall>p\<in>set ?ps. Some (p_id p) \<noteq> ?r) \<or>
        (\<not> truthy ?r \<and> (\<forall>p\<in>set ?ps. p_id p \<noteq> []))"
    with nomatch have "\<forall>p\<in>set ?ps. Some (p_id p) \<noteq> ?r" by blast
    then have "local_id_of ?r 0 ?ps = None" by (simp add: local_id_of_None)
    then show "publishStory ns ai S fo sid True =
         Inr (storydata ns ai S fo None (tagData (tagColors S)) ?pd)"
      by (simp add: publishStory_lenient pd)
  qed
  have c5: "?r = None \<longrightarrow>
       publishStory ns ai S fo sid True =
         Inr (storydata ns ai S fo None (tagData (tagColors S)) ?pd)"
  proof
    assume "?r = None"
    then have "\<forall>p\<in>set ?ps. Some (p_id p) \<noteq> ?r" by simp
    with c4 show "publishStory ns ai S fo sid True =
         Inr (storydata ns ai S fo None (tagData (tagColors S)) ?pd)"
      by blast
  qed
  show ?thesis
    apply (intro conjI)
         apply (rule c1)
        apply (rule c2)
       apply (rule c3)
      apply (rule c4)
     apply (rule c5)
    apply (intro allI, rule storydata_startnode_None)
    done
qed

theorem publishStory_strict_errors_witness:
  \<open>publishStory decimal ex_app (ex_story\<lparr>startPassage := None\<rparr>) None None False = Inl NoStartPoint
   \<and> publishStory decimal ex_app (ex_story\<lparr>startPassage := Some []\<rparr>) None None False =
       Inl NoStartPoint
   \<and> publishStory decimal ex_app (ex_story\<lparr>startPassage := Some ''zz''\<rparr>) None None False =
       Inl StartPointNotFound
   \<and> publishStory decimal ex_app (ex_story\<lparr>startPassage := None\<rparr>) None None True =
       Inr ''<tw-storydata name="A&amp;B" startnode="" creator="Twine" creator-version="2.4.0" ifid="IFID-1" zoom="1" format="Harlowe" format-version="3.2.0" options="" hidden><style role="stylesheet" id="twine-user-stylesheet" type="text/twine-css">a>b{}</style><script role="script" id="twine-user-script" type="text/twine-javascript">x&&y</script><tw-tag name="intro" color="red"></tw-tag><tw-passagedata pid="1" name="Start" tags="intro dark" position="10,20" size="100,100">Go &lt;east&gt; &amp; &quot;west&quot; $1</tw-passagedata><tw-passagedata pid="2" name="End" tags="" position="30,40" size="100,100">Done</tw-passagedata></tw-storydata>''
   \<and> publishStory decimal ex_app (ex_story\<lparr>startPassage := Some []\<rparr>) None None True =
       Inr ''<tw-storydata name="A&amp;B" startnode="" creator="Twine" creator-version="2.4.0" ifid="IFID-1" zoom="1" format="Harlowe" format-version="3.2.0" options="" hidden><style role="stylesheet" id="twine-user-stylesheet" type="text/twine-css">a>b{}</style><script role="script" id="twine-user-script" type="text/twine-javascript">x&&y</script><tw-tag name="intro" color="red"></tw-tag><tw-passagedata pid="1" name="Start" tags="intro dark" position="10,20" size="100,100">Go &lt;east&gt; &amp; &quot;west&quot; $1</tw-passagedata><tw-passagedata pid="2" name="End" tags="" position="30,40" size="100,100">Done</tw-passagedata></tw-storydata>''
   \<and> publishStory decimal ex_app (ex_story\<lparr>startPassage := Some ''zz''\<rparr>) None None True =
       Inr ''<tw-storydata name="A&amp;B" startnode="" creator="Twine" creator-version="2.4.0" ifid="IFID-1" zoom="1" format="Harlowe" format-version="3.2.0" options="" hidden><style role="stylesheet" id="twine-user-stylesheet" type="text/twine-css">a>b{}</style><script role="script" id="twine-user-script" type="text/twine-javascript">x&&y</script><tw-tag name="intro" color="red"></tw-tag><tw-passagedata pid="1" name="Start" tags="intro dark" position="10,20" size="100,100">Go &lt;east&gt; &amp; &quot;west&quot; $1</tw-passagedata><tw-passagedata pid="2" name="End" tags="" position="30,40" size="100,100">Done</tw-passagedata></tw-storydata>''\<close>
proof -
  let ?pd = "\<lambda>S::nat story. concat (map (\<lambda>k. publishPassage decimal (passages S ! k) (Suc k))
      [0..<length (passages S)])"
  have a: "\<not> truthy (js_or None (startPassage (ex_story\<lparr>startPassage := None\<rparr>)))"
    by (simp add: js_or_def truthy_def)
  have a': "\<not> truthy (js_or None (startPassage (ex_story\<lparr>startPassage := Some []\<rparr>)))"
    by (simp add: js_or_def truthy_def)
  have ids: "\<forall>p\<in>set (passages (ex_story\<lparr>startPassage := None\<rparr>)). p_id p \<noteq> []"
    by (simp add: ex_defs)
  have ids': "\<forall>p\<in>set (passages (ex_story\<lparr>startPassage := Some []\<rparr>)). p_id p \<noteq> []"
    by (simp add: ex_defs)
  have b: "truthy (js_or None (startPassage (ex_story\<lparr>startPassage := Some ''zz''\<rparr>)))"
    by (simp add: js_or_def truthy_def)
  have nomatch: "\<forall>p\<in>set (passages (ex_story\<lparr>startPassage := Some ''zz''\<rparr>)).
      Some (p_id p) \<noteq> js_or None (startPassage (ex_story\<lparr>startPassage := Some ''zz''\<rparr>))"
    by (simp add: js_or_def truthy_def ex_defs)
  note t1 = publishStory_strict_errors[of None "ex_story\<lparr>startPassage := None\<rparr>" decimal ex_app None]
  note t2 = publishStory_strict_errors[of None "ex_story\<lparr>startPassage := Some ''zz''\<rparr>" decimal ex_app None]
  note t3 = publishStory_strict_errors[of None "ex_story\<lparr>startPassage := Some []\<rparr>" decimal ex_app None]
  have e1: "publishStory decimal ex_app (ex_story\<lparr>startPassage := None\<rparr>) None None False = Inl NoStartPoint"
    using t1 a by blast
  have e2: "publishStory decimal ex_app (ex_story\<lparr>startPassage := Some ''zz''\<rparr>) None None False =
       Inl StartPointNotFound"
    using t2 b nomatch by blast
  have e3: "publishStory decimal ex_app (ex_story\<lparr>startPassage := Some []\<rparr>) None None False =
       Inl NoStartPoint"
    using t3 a' by blast
  have l1: "publishStory decimal ex_app (ex_story\<lparr>startPassage := None\<rparr>) None None True =
      Inr (storydata decimal ex_app (ex_story\<lparr>startPassage := None\<rparr>) None None
             (tagData (tagColors (ex_story\<lparr>startPassage := None\<rparr>)))
             (?pd (ex_story\<lparr>startPassage := None\<rparr>)))"
    using t1 a ids by blast
  have l2: "publishStory decimal ex_app (ex_story\<lparr>startPassage := Some ''zz''\<rparr>) None None True =
      Inr (storydata decimal ex_app (ex_story\<lparr>startPassage := Some ''zz''\<rparr>) None None
             (tagData (tagColors (ex_story\<lparr>startPassage := Some ''zz''\<rparr>)))
             (?pd (ex_story\<lparr>startPassage := Some ''zz''\<rparr>)))"
    using t2 nomatch by blast
  have l3: "publishStory decimal ex_app (ex_story\<lparr>startPassage := Some []\<rparr>) None None True =
      Inr (storydata decimal ex_app (ex_story\<lparr>startPassage := Some []\<rparr>) None None
             (tagData (tagColors (ex_story\<lparr>startPassage := Some []\<rparr>)))
             (?pd (ex_story\<lparr>startPassage := Some []\<rparr>)))"
    using t3 a' ids' by blast
  show ?thesis
    unfolding e1 e2 e3 l1 l2 l3
    by (simp add: ex_defs storydata_def publishPassage_def tagData_def object_keys_def
        array_toString_def startnode_value_def escape_nullable_def escape_Nil escape_Cons
        escapeHtmlChar_def decimal.simps upt_rec)
qed

subsection \<open>C4: text and names enter the output escaped\<close>

text \<open>
  C4. Whatever the passage text or the story name contains, it reaches the output of
  \<^verbatim>\<open>publishPassage\<close> and of \<^verbatim>\<open>publishStory\<close> only as its escaped form, placed between
  two strings that do not depend on it; and an escaped form is well escaped: it has no
  \<^verbatim>\<open><\<close>, \<^verbatim>\<open>>\<close> or double quote, and each \<^verbatim>\<open>&\<close> in it starts an entity. The third and
  fourth part speak of a call of \<^verbatim>\<open>publishStory\<close> that returns; the name and the texts
  have no part in whether it does.
\<close>

theorem publish_escapes_text_and_name:
  \<open>(\<forall>s. well_escaped (escape s))
    \<and> (\<exists>front. \<forall>tx. publishPassage ns (P\<lparr>p_text := tx\<rparr>) n =
          front @ escape tx @ ''</tw-passagedata>'')
    \<and> ((\<exists>out. publishStory ns ai S fo sid so = Inr out) \<longrightarrow>
        (\<exists>rest. \<forall>nm. publishStory ns ai (S\<lparr>s_name := nm\<rparr>) fo sid so =
           Inr (''<tw-storydata name="'' @ escape nm @ rest)))
    \<and> ((\<exists>out. publishStory ns ai S fo sid so = Inr out) \<and> i < length (passages S) \<longrightarrow>
        (\<exists>front rest. \<forall>tx.
           publishStory ns ai
             (S\<lparr>passages := (passages S)[i := (passages S ! i)\<lparr>p_text := tx\<rparr>]\<rparr>) fo sid so =
           Inr (front @ escape tx @ rest)))\<close>
proof -
  let ?r = "js_or sid (startPassage S)"
  let ?sl = "local_id_of ?r 0 (passages S)"
  have c3: \<open>\<exists>rest. \<forall>nm. publishStory ns ai (S\<lparr>s_name := nm\<rparr>) fo sid so =
           Inr (''<tw-storydata name="'' @ escape nm @ rest)\<close>
    if "\<exists>out. publishStory ns ai S fo sid so = Inr out"
  proof -
    from that have ok: "\<not> (\<not> so \<and> \<not> truthy ?r)" "\<not> (\<not> so \<and> ?sl = None)"
      by (auto simp: publishStory_eq split: if_splits)
    obtain rest where rest: \<open>\<forall>nm. storydata ns ai (S\<lparr>s_name := nm\<rparr>) fo ?sl
        (tagData (tagColors S)) (numbered_passages ns 0 (passages S)) =
        ''<tw-storydata name="'' @ escape nm @ rest\<close>
      using storydata_around_name by blast
    have \<open>publishStory ns ai (S\<lparr>s_name := nm\<rparr>) fo sid so =
           Inr (''<tw-storydata name="'' @ escape nm @ rest)\<close> for nm
      using ok rest by (simp add: publishStory_eq)
    then show ?thesis by blast
  qed
  have c4: "\<exists>front rest. \<forall>tx.
           publishStory ns ai
             (S\<lparr>passages := (passages S)[i := (passages S ! i)\<lparr>p_text := tx\<rparr>]\<rparr>) fo sid so =
           Inr (front @ escape tx @ rest)"
    if "\<exists>out. publishStory ns ai S fo sid so = Inr out" and i: "i < length (passages S)"
  proof -
    let ?ps = "passages S"
    let ?upd = "\<lambda>tx. ?ps[i := (?ps ! i)\<lparr>p_text := tx\<rparr>]"
    from that have ok: "\<not> (\<not> so \<and> \<not> truthy ?r)" "\<not> (\<not> so \<and> ?sl = None)"
      by (auto simp: publishStory_eq split: if_splits)
    have ids: "map p_id (?upd tx) = map p_id ?ps" for tx
      using i by (simp add: list_eq_iff_nth_eq nth_list_update)
    have sl: "local_id_of ?r 0 (?upd tx) = ?sl" for tx
      by (rule local_id_of_ids[OF ids])
    obtain pfront where pfront: \<open>\<forall>tx. publishPassage ns ((?ps ! i)\<lparr>p_text := tx\<rparr>) (Suc i) =
        pfront @ escape tx @ ''</tw-passagedata>''\<close>
      using publishPassage_around_text by blast
    obtain sfront where sfront: \<open>\<forall>pd. storydata ns ai S fo ?sl (tagData (tagColors S)) pd =
        sfront @ pd @ ''</tw-storydata>''\<close>
      using storydata_around_passages by blast
    let ?front = "sfront @ numbered_passages ns 0 (take i ?ps) @ pfront"
    let ?tail = \<open>''</tw-passagedata>'' @ numbered_passages ns (Suc i) (drop (Suc i) ?ps) @
        ''</tw-storydata>''\<close>
    have "publishStory ns ai (S\<lparr>passages := ?upd tx\<rparr>) fo sid so =
           Inr (?front @ escape tx @ ?tail)" for tx
    proof -
      have "publishStory ns ai (S\<lparr>passages := ?upd tx\<rparr>) fo sid so =
          Inr (storydata ns ai S fo ?sl (tagData (tagColors S)) (numbered_passages ns 0 (?upd tx)))"
        using ok by (simp add: publishStory_eq sl storydata_passages_field)
      also have "numbered_passages ns 0 (?upd tx) =
          numbered_passages ns 0 (take i ?ps) @ (pfront @ escape tx @ ''</tw-passagedata>'') @
          numbered_passages ns (Suc i) (drop (Suc i) ?ps)"
        using numbered_passages_update[OF i] pfront by simp
      finally show ?thesis
        using sfront by simp
    qed
    then show ?thesis by blast
  qed
  show ?thesis
    apply (intro conjI)
       apply (intro allI, rule well_escaped_escape)
      apply (rule publishPassage_around_text)
     apply (intro impI, erule c3)
    apply (intro impI, elim conjE, erule (1) c4)
    done
qed

theorem publish_escapes_text_and_name_witness:
  \<open>well_escaped (escape ''A&B'')
   \<and> escape ''A&B'' = ''A&amp;B''
   \<and> escape ''Go <east> & "west" $1'' = ''Go &lt;east&gt; &amp; &quot;west&quot; $1''
   \<and> (\<exists>rest. publishStory decimal ex_app ex_story None None False =
         Inr (''<tw-storydata name="'' @ escape ''A&B'' @ rest))
   \<and> (\<exists>front rest. publishStory decimal ex_app ex_story None None False =
         Inr (front @ escape ''Go <east> & "west" $1'' @ rest))\<close>
proof -
  note t = publish_escapes_text_and_name[of decimal ex_passage1 1 ex_app ex_story None None False 0]
  have ok: "\<exists>out. publishStory decimal ex_app ex_story None None False = Inr out"
    by (simp add: ex_defs publishStory_def js_or_def truthy_def split: prod.splits)
  have len: "0 < length (passages ex_story)"
    by (simp add: ex_defs)
  have nm: "ex_story\<lparr>s_name := ''A&B''\<rparr> = ex_story"
    by (simp add: ex_defs)
  have tx: \<open>ex_story\<lparr>passages := (passages ex_story)
      [0 := (passages ex_story ! 0)\<lparr>p_text := ''Go <east> & "west" $1''\<rparr>]\<rparr> = ex_story\<close>
    by (simp add: ex_defs)
  from t have "well_escaped (escape ''A&B'')" by blast
  moreover have "escape ''A&B'' = ''A&amp;B''"
    by (simp add: escape_Cons escape_Nil escapeHtmlChar_def)
  moreover have \<open>escape ''Go <east> & "west" $1'' = ''Go &lt;east&gt; &amp; &quot;west&quot; $1''\<close>
    by (simp add: escape_Cons escape_Nil escapeHtmlChar_def)
  moreover from t ok obtain rest where
    \<open>\<forall>nm. publishStory decimal ex_app (ex_story\<lparr>s_name := nm\<rparr>) None None False =
           Inr (''<tw-storydata name="'' @ escape nm @ rest)\<close>
    by blast
  then have \<open>\<exists>rest. publishStory decimal ex_app ex_story None None False =
         Inr (''<tw-storydata name="'' @ escape ''A&B'' @ rest)\<close>
    using nm by metis
  moreover from t ok len obtain front rest where
    \<open>\<forall>tx. publishStory decimal ex_app
        (ex_story\<lparr>passages := (passages ex_story)[0 := (passages ex_story ! 0)\<lparr>p_text := tx\<rparr>]\<rparr>)
        None None False = Inr (front @ escape tx @ rest)\<close>
    by blast
  then have \<open>\<exists>front rest. publishStory decimal ex_app ex_story None None False =
         Inr (front @ escape ''Go <east> & "west" $1'' @ rest)\<close>
    using tx by metis
  ultimately show ?thesis by blast
qed

subsection \<open>C5: the placeholders are substituted literally\<close>

text \<open>
  C5. For every template and story for which strict \<^verbatim>\<open>publishStory\<close> returns a fragment,
  \<^verbatim>\<open>publishStoryWithFormat\<close> returns the template with each \<^verbatim>\<open>{{STORY_NAME}}\<close> replaced by
  the escaped story name and then each \<^verbatim>\<open>{{STORY_DATA}}\<close> replaced by the fragment, by
  literal substitution; and when no \<^verbatim>\<open>{{STORY_DATA}}\<close> is left to replace, it returns the
  template with the names substituted, whatever \<^verbatim>\<open>publishStory\<close> would do. Literal
  substitution copies the value as it is, whatever it contains
  (a \<^verbatim>\<open>$1\<close> stays a \<^verbatim>\<open>$1\<close>): a subject \<open>a @ tok @ b\<close> in which no token starts inside
  \<open>a\<close> becomes \<open>a @ v\<close> followed by the substitution in \<open>b\<close>, and a subject in which no
  token starts is left as it is.
\<close>

theorem publishStoryWithFormat_literal:
  \<open>(properties fmt = Some props \<and> source props = Some src \<and> src \<noteq> [] \<and>
     publishStory ns ai S fo sid False = Inr frag \<longrightarrow>
       publishStoryWithFormat ns ai S fmt fo sid =
         Inr (subst_literal ''{{STORY_DATA}}'' frag
                (subst_literal ''{{STORY_NAME}}'' (escape (s_name S)) src)))
    \<and> (properties fmt = Some props \<and> source props = Some src \<and> src \<noteq> [] \<and>
        occurrences ''{{STORY_DATA}}''
          (subst_literal ''{{STORY_NAME}}'' (escape (s_name S)) src) = 0 \<longrightarrow>
       publishStoryWithFormat ns ai S fmt fo sid =
         Inr (subst_literal ''{{STORY_NAME}}'' (escape (s_name S)) src))
    \<and> (\<forall>tok a b v. tok \<noteq> [] \<and> hd tok \<notin> set a \<longrightarrow>
          subst_literal tok v (a @ tok @ b) = a @ v @ subst_literal tok v b)
    \<and> (\<forall>tok a v. tok \<noteq> [] \<and> hd tok \<notin> set a \<longrightarrow> subst_literal tok v a = a)\<close>
proof -
  have c1: "properties fmt = Some props \<and> source props = Some src \<and> src \<noteq> [] \<and>
     publishStory ns ai S fo sid False = Inr frag \<longrightarrow>
       publishStoryWithFormat ns ai S fmt fo sid =
         Inr (subst_literal ''{{STORY_DATA}}'' frag
                (subst_literal ''{{STORY_NAME}}'' (escape (s_name S)) src))"
  proof (intro impI, elim conjE)
    assume p: "properties fmt = Some props" "source props = Some src" "src \<noteq> []"
      and ok: "publishStory ns ai S fo sid False = Inr frag"
    show "publishStoryWithFormat ns ai S fmt fo sid =
         Inr (subst_literal ''{{STORY_DATA}}'' frag
                (subst_literal ''{{STORY_NAME}}'' (escape (s_name S)) src))"
      by (simp add: publishStoryWithFormat_def run_eq[OF p] ok)
  qed
  have c1': "properties fmt = Some props \<and> source props = Some src \<and> src \<noteq> [] \<and>
        occurrences ''{{STORY_DATA}}''
          (subst_literal ''{{STORY_NAME}}'' (escape (s_name S)) src) = 0 \<longrightarrow>
       publishStoryWithFormat ns ai S fmt fo sid =
         Inr (subst_literal ''{{STORY_NAME}}'' (escape (s_name S)) src)"
  proof (intro impI, elim conjE)
    assume p: "properties fmt = Some props" "source props = Some src" "src \<noteq> []"
      and none: "occurrences ''{{STORY_DATA}}''
          (subst_literal ''{{STORY_NAME}}'' (escape (s_name S)) src) = 0"
    show "publishStoryWithFormat ns ai S fmt fo sid =
         Inr (subst_literal ''{{STORY_NAME}}'' (escape (s_name S)) src)"
      by (cases "publishStory ns ai S fo sid False")
         (simp_all add: publishStoryWithFormat_def run_eq[OF p] none
            subst_literal_no_occurrence[OF none])
  qed
  have c2: "\<forall>tok a b v. tok \<noteq> [] \<and> hd tok \<notin> set a \<longrightarrow>
          subst_literal tok v (a @ tok @ b) = a @ v @ subst_literal tok v b"
    using subst_literal_first by blast
  have c3: "\<forall>tok a v. tok \<noteq> [] \<and> hd tok \<notin> set a \<longrightarrow> subst_literal tok v a = a"
    using subst_literal_none by blast
  from c1 c1' c2 c3 show ?thesis by (intro conjI)
qed

theorem publishStoryWithFormat_literal_witness:
  \<open>publishStoryWithFormat decimal ex_app ex_story
      (ex_format ''before {{STORY_NAME}} mid {{STORY_DATA}} after'') None None =
     Inr ''before A&amp;B mid <tw-storydata name="A&amp;B" startnode="2" creator="Twine" creator-version="2.4.0" ifid="IFID-1" zoom="1" format="Harlowe" format-version="3.2.0" options="" hidden><style role="stylesheet" id="twine-user-stylesheet" type="text/twine-css">a>b{}</style><script role="script" id="twine-user-script" type="text/twine-javascript">x&&y</script><tw-tag name="intro" color="red"></tw-tag><tw-passagedata pid="1" name="Start" tags="intro dark" position="10,20" size="100,100">Go &lt;east&gt; &amp; &quot;west&quot; $1</tw-passagedata><tw-passagedata pid="2" name="End" tags="" position="30,40" size="100,100">Done</tw-passagedata></tw-storydata> after''\<close>
proof -
  have p: \<open>properties (ex_format ''before {{STORY_NAME}} mid {{STORY_DATA}} after'') =
        Some \<lparr>source = Some ''before {{STORY_NAME}} mid {{STORY_DATA}} after''\<rparr>\<close>
    \<open>source \<lparr>source = Some ''before {{STORY_NAME}} mid {{STORY_DATA}} after''\<rparr> =
        Some ''before {{STORY_NAME}} mid {{STORY_DATA}} after''\<close>
    \<open>''before {{STORY_NAME}} mid {{STORY_DATA}} after'' \<noteq> []\<close>
    by (simp_all add: ex_format_def)
  have ok: \<open>publishStory decimal ex_app ex_story None None False =
     Inr ''<tw-storydata name="A&amp;B" startnode="2" creator="Twine" creator-version="2.4.0" ifid="IFID-1" zoom="1" format="Harlowe" format-version="3.2.0" options="" hidden><style role="stylesheet" id="twine-user-stylesheet" type="text/twine-css">a>b{}</style><script role="script" id="twine-user-script" type="text/twine-javascript">x&&y</script><tw-tag name="intro" color="red"></tw-tag><tw-passagedata pid="1" name="Start" tags="intro dark" position="10,20" size="100,100">Go &lt;east&gt; &amp; &quot;west&quot; $1</tw-passagedata><tw-passagedata pid="2" name="End" tags="" position="30,40" size="100,100">Done</tw-passagedata></tw-storydata>''\<close>
    by (simp add: ex_defs eval_defs)
  have nm: \<open>escape (s_name ex_story) = ''A&amp;B''\<close>
    by (simp add: ex_defs escape_Cons escape_Nil escapeHtmlChar_def)
  from publishStoryWithFormat_literal[of
      \<open>ex_format ''before {{STORY_NAME}} mid {{STORY_DATA}} after''\<close>
      \<open>\<lparr>source = Some ''before {{STORY_NAME}} mid {{STORY_DATA}} after''\<rparr>\<close>
      \<open>''before {{STORY_NAME}} mid {{STORY_DATA}} after''\<close>
      decimal ex_app ex_story None None
      \<open>''<tw-storydata name="A&amp;B" startnode="2" creator="Twine" creator-version="2.4.0" ifid="IFID-1" zoom="1" format="Harlowe" format-version="3.2.0" options="" hidden><style role="stylesheet" id="twine-user-stylesheet" type="text/twine-css">a>b{}</style><script role="script" id="twine-user-script" type="text/twine-javascript">x&&y</script><tw-tag name="intro" color="red"></tw-tag><tw-passagedata pid="1" name="Start" tags="intro dark" position="10,20" size="100,100">Go &lt;east&gt; &amp; &quot;west&quot; $1</tw-passagedata><tw-passagedata pid="2" name="End" tags="" position="30,40" size="100,100">Done</tw-passagedata></tw-storydata>''\<close>] p ok
  have \<open>publishStoryWithFormat decimal ex_app ex_story
      (ex_format ''before {{STORY_NAME}} mid {{STORY_DATA}} after'') None None =
      Inr (subst_literal ''{{STORY_DATA}}''
             ''<tw-storydata name="A&amp;B" startnode="2" creator="Twine" creator-version="2.4.0" ifid="IFID-1" zoom="1" format="Harlowe" format-version="3.2.0" options="" hidden><style role="stylesheet" id="twine-user-stylesheet" type="text/twine-css">a>b{}</style><script role="script" id="twine-user-script" type="text/twine-javascript">x&&y</script><tw-tag name="intro" color="red"></tw-tag><tw-passagedata pid="1" name="Start" tags="intro dark" position="10,20" size="100,100">Go &lt;east&gt; &amp; &quot;west&quot; $1</tw-passagedata><tw-passagedata pid="2" name="End" tags="" position="30,40" size="100,100">Done</tw-passagedata></tw-storydata>''
             (subst_literal ''{{STORY_NAME}}'' (escape (s_name ex_story))
                ''before {{STORY_NAME}} mid {{STORY_DATA}} after''))\<close>
    by blast
  then show ?thesis
    by (simp add: nm subst_literal_Cons subst_literal_Nil)
qed

subsection \<open>C6: the archive\<close>

text \<open>
  C6. \<^verbatim>\<open>publishArchive\<close> of no story is the empty string. For every list of stories it
  returns, without raising, the fragments that lenient \<^verbatim>\<open>publishStory\<close> (no format options,
  no start argument) gives for the stories, in list order, each followed by two line feeds,
  and nothing around them; for one story \<open>S\<close> that is the fragment of \<open>S\<close> and two line
  feeds.
\<close>

theorem publishArchive_concat:
  \<open>publishArchive ns [] ai = Inr []
    \<and> (\<exists>frags. length frags = length stories
          \<and> (\<forall>i<length stories. publishStory ns ai (stories ! i) None None True = Inr (frags ! i))
          \<and> publishArchive ns stories ai = Inr (concat (map (\<lambda>f. f @ [CHR 0x0A, CHR 0x0A]) frags)))
    \<and> (\<exists>frag. publishStory ns ai S None None True = Inr frag
          \<and> publishArchive ns [S] ai = Inr (frag @ [CHR 0x0A, CHR 0x0A]))\<close>
proof -
  define F where "F = (\<lambda>T. storydata ns ai T None
      (local_id_of (js_or None (startPassage T)) 0 (passages T))
      (tagData (tagColors T)) (numbered_passages ns 0 (passages T)))"
  have frag: "publishStory ns ai T None None True = Inr (F T)" for T
    by (simp add: publishStory_lenient F_def)
  have all: "publishArchive ns ss ai = Inr (concat (map (\<lambda>f. f @ [CHR 0x0A, CHR 0x0A]) (map F ss)))" for ss
    unfolding publishArchive_def publishArchive_foldl[of ns ai F, OF frag] by (simp add: comp_def)
  have c1: "publishArchive ns [] ai = Inr []"
    by (simp add: publishArchive_def)
  have c2: "\<exists>frags. length frags = length stories
          \<and> (\<forall>i<length stories. publishStory ns ai (stories ! i) None None True = Inr (frags ! i))
          \<and> publishArchive ns stories ai = Inr (concat (map (\<lambda>f. f @ [CHR 0x0A, CHR 0x0A]) frags))"
    by (rule exI[of _ "map F stories"]) (simp add: frag all)
  have c3: "\<exists>frag. publishStory ns ai S None None True = Inr frag
          \<and> publishArchive ns [S] ai = Inr (frag @ [CHR 0x0A, CHR 0x0A])"
    by (rule exI[of _ "F S"]) (simp add: frag all[of "[S]"])
  from c1 c2 c3 show ?thesis by blast
qed

theorem publishArchive_concat_witness:
  \<open>publishArchive decimal [ex_story, ex_story\<lparr>startPassage := None\<rparr>] ex_app =
     Inr (''<tw-storydata name="A&amp;B" startnode="2" creator="Twine" creator-version="2.4.0" ifid="IFID-1" zoom="1" format="Harlowe" format-version="3.2.0" options="" hidden><style role="stylesheet" id="twine-user-stylesheet" type="text/twine-css">a>b{}</style><script role="script" id="twine-user-script" type="text/twine-javascript">x&&y</script><tw-tag name="intro" color="red"></tw-tag><tw-passagedata pid="1" name="Start" tags="intro dark" position="10,20" size="100,100">Go &lt;east&gt; &amp; &quot;west&quot; $1</tw-passagedata><tw-passagedata pid="2" name="End" tags="" position="30,40" size="100,100">Done</tw-passagedata></tw-storydata>'' @ [CHR 0x0A, CHR 0x0A] @
          ''<tw-storydata name="A&amp;B" startnode="" creator="Twine" creator-version="2.4.0" ifid="IFID-1" zoom="1" format="Harlowe" format-version="3.2.0" options="" hidden><style role="stylesheet" id="twine-user-stylesheet" type="text/twine-css">a>b{}</style><script role="script" id="twine-user-script" type="text/twine-javascript">x&&y</script><tw-tag name="intro" color="red"></tw-tag><tw-passagedata pid="1" name="Start" tags="intro dark" position="10,20" size="100,100">Go &lt;east&gt; &amp; &quot;west&quot; $1</tw-passagedata><tw-passagedata pid="2" name="End" tags="" position="30,40" size="100,100">Done</tw-passagedata></tw-storydata>'' @ [CHR 0x0A, CHR 0x0A])\<close>
proof -
  let ?ss = "[ex_story, ex_story\<lparr>startPassage := None\<rparr>]"
  from publishArchive_concat[of decimal ex_app ?ss ex_story]
  obtain frags where l: "length frags = length ?ss"
    and f: "\<forall>i<length ?ss. publishStory decimal ex_app (?ss ! i) None None True = Inr (frags ! i)"
    and a: "publishArchive decimal ?ss ex_app =
         Inr (concat (map (\<lambda>f. f @ [CHR 0x0A, CHR 0x0A]) frags))"
    by blast
  from f[rule_format, of 0] have f0:
    "publishStory decimal ex_app ex_story None None True = Inr (frags ! 0)" by simp
  from f[rule_format, of 1] have f1:
    "publishStory decimal ex_app (ex_story\<lparr>startPassage := None\<rparr>) None None True = Inr (frags ! 1)"
    by simp
  have e0: \<open>publishStory decimal ex_app ex_story None None True =
     Inr ''<tw-storydata name="A&amp;B" startnode="2" creator="Twine" creator-version="2.4.0" ifid="IFID-1" zoom="1" format="Harlowe" format-version="3.2.0" options="" hidden><style role="stylesheet" id="twine-user-stylesheet" type="text/twine-css">a>b{}</style><script role="script" id="twine-user-script" type="text/twine-javascript">x&&y</script><tw-tag name="intro" color="red"></tw-tag><tw-passagedata pid="1" name="Start" tags="intro dark" position="10,20" size="100,100">Go &lt;east&gt; &amp; &quot;west&quot; $1</tw-passagedata><tw-passagedata pid="2" name="End" tags="" position="30,40" size="100,100">Done</tw-passagedata></tw-storydata>''\<close>
    by (simp add: ex_defs eval_defs)
  have e1: \<open>publishStory decimal ex_app (ex_story\<lparr>startPassage := None\<rparr>) None None True =
     Inr ''<tw-storydata name="A&amp;B" startnode="" creator="Twine" creator-version="2.4.0" ifid="IFID-1" zoom="1" format="Harlowe" format-version="3.2.0" options="" hidden><style role="stylesheet" id="twine-user-stylesheet" type="text/twine-css">a>b{}</style><script role="script" id="twine-user-script" type="text/twine-javascript">x&&y</script><tw-tag name="intro" color="red"></tw-tag><tw-passagedata pid="1" name="Start" tags="intro dark" position="10,20" size="100,100">Go &lt;east&gt; &amp; &quot;west&quot; $1</tw-passagedata><tw-passagedata pid="2" name="End" tags="" position="30,40" size="100,100">Done</tw-passagedata></tw-storydata>''\<close>
    by (simp add: ex_defs eval_defs)
  from l obtain x y where xy: "frags = [x, y]"
    by (cases frags; cases "tl frags") auto
  from f0 e0 xy have x: \<open>x = ''<tw-storydata name="A&amp;B" startnode="2" creator="Twine" creator-version="2.4.0" ifid="IFID-1" zoom="1" format="Harlowe" format-version="3.2.0" options="" hidden><style role="stylesheet" id="twine-user-stylesheet" type="text/twine-css">a>b{}</style><script role="script" id="twine-user-script" type="text/twine-javascript">x&&y</script><tw-tag name="intro" color="red"></tw-tag><tw-passagedata pid="1" name="Start" tags="intro dark" position="10,20" size="100,100">Go &lt;east&gt; &amp; &quot;west&quot; $1</tw-passagedata><tw-passagedata pid="2" name="End" tags="" position="30,40" size="100,100">Done</tw-passagedata></tw-storydata>''\<close> by simp
  from f1 e1 xy have y: \<open>y = ''<tw-storydata name="A&amp;B" startnode="" creator="Twine" creator-version="2.4.0" ifid="IFID-1" zoom="1" format="Harlowe" format-version="3.2.0" options="" hidden><style role="stylesheet" id="twine-user-stylesheet" type="text/twine-css">a>b{}</style><script role="script" id="twine-user-script" type="text/twine-javascript">x&&y</script><tw-tag name="intro" color="red"></tw-tag><tw-passagedata pid="1" name="Start" tags="intro dark" position="10,20" size="100,100">Go &lt;east&gt; &amp; &quot;west&quot; $1</tw-passagedata><tw-passagedata pid="2" name="End" tags="" position="30,40" size="100,100">Done</tw-passagedata></tw-storydata>''\<close> by simp
  from a show ?thesis unfolding xy x y by simp
qed

subsection \<open>C7: the passage element\<close>

text \<open>
  C7. For every passage \<open>P\<close> and local id \<open>n\<close>, \<^verbatim>\<open>publishPassage(P, n)\<close> is one
  \<^verbatim>\<open>tw-passagedata\<close> element: the attribute \<^verbatim>\<open>pid\<close> is \<open>n\<close> in decimal, \<^verbatim>\<open>name\<close> is the
  escaped passage name, \<^verbatim>\<open>tags\<close> is the escaped list of tags with exactly one space between
  two neighbours, \<^verbatim>\<open>position\<close> is \<open>left,top\<close> and \<^verbatim>\<open>size\<close> is \<open>width,height\<close>, and the
  content is the escaped passage text. Every escaped value is well escaped, and so are the
  position and size tokens when numbers are written without special characters (as
  \<^verbatim>\<open>Number.prototype.toString\<close> writes them). The result is a function of the passage and the
  local id alone: the embedding has no state to read or write.
\<close>

theorem publishPassage_element:
  \<open>publishPassage ns P n =
      ''<tw-passagedata pid="'' @ decimal n @
      ''" name="'' @ escape (p_name P) @
      ''" tags="'' @ escape (join '' '' (p_tags P)) @
      ''" position="'' @ ns (p_left P) @ '','' @ ns (p_top P) @
      ''" size="'' @ ns (p_width P) @ '','' @ ns (p_height P) @
      ''">'' @ escape (p_text P) @ ''</tw-passagedata>''
    \<and> join '' '' (p_tags P) =
        (case p_tags P of [] \<Rightarrow> [] | t # ts \<Rightarrow> t @ concat (map (\<lambda>u. CHR '' '' # u) ts))
    \<and> well_escaped (decimal n)
    \<and> well_escaped (escape (p_name P))
    \<and> well_escaped (escape (join '' '' (p_tags P)))
    \<and> well_escaped (escape (p_text P))
    \<and> ((\<forall>x. plain (ns x)) \<longrightarrow>
          well_escaped (ns (p_left P) @ '','' @ ns (p_top P)) \<and>
          well_escaped (ns (p_width P) @ '','' @ ns (p_height P)))\<close>
proof -
  have shape: \<open>publishPassage ns P n =
      ''<tw-passagedata pid="'' @ decimal n @
      ''" name="'' @ escape (p_name P) @
      ''" tags="'' @ escape (join '' '' (p_tags P)) @
      ''" position="'' @ ns (p_left P) @ '','' @ ns (p_top P) @
      ''" size="'' @ ns (p_width P) @ '','' @ ns (p_height P) @
      ''">'' @ escape (p_text P) @ ''</tw-passagedata>''\<close>
    by (simp add: publishPassage_def escape_plain[OF plain_decimal])
  have tags: \<open>join '' '' (p_tags P) =
        (case p_tags P of [] \<Rightarrow> [] | t # ts \<Rightarrow> t @ concat (map (\<lambda>u. CHR '' '' # u) ts))\<close>
    by (cases "p_tags P") (simp_all add: join_space)
  have nums: \<open>well_escaped (ns a @ '','' @ ns b)\<close> if "\<forall>x. plain (ns x)" for a b
  proof -
    have "plain (ns a @ '','' @ ns b)"
      using that by (simp add: plain_append plain_Cons plain_Nil special_chars_def)
    then show ?thesis by (rule well_escaped_plain)
  qed
  show ?thesis
    using shape tags nums well_escaped_escape well_escaped_plain[OF plain_decimal]
    by blast
qed

theorem publishPassage_element_witness:
  \<open>publishPassage decimal
      \<lparr>p_id = ''u1'', p_name = ''A "b"'', p_tags = [''x'', ''y<z''], p_left = 10, p_top = 20,
       p_width = 100, p_height = 50, p_text = ''1 < 2 & 3''\<rparr> 7 =
      ''<tw-passagedata pid="7" name="A &quot;b&quot;" tags="x y&lt;z" position="10,20" size="100,50">1 &lt; 2 &amp; 3</tw-passagedata>''
    \<and> well_escaped ''10,20'' \<and> well_escaped ''100,50''\<close>
proof -
  have d: "decimal 7 = ''7''" "decimal 10 = ''10''" "decimal 20 = ''20''"
    "decimal 100 = ''100''" "decimal 50 = ''50''"
    by (simp_all add: decimal.simps)
  have h: "\<forall>x. plain (decimal x)" by (simp add: plain_decimal)
  show ?thesis
    using publishPassage_element[of decimal
      \<open>\<lparr>p_id = ''u1'', p_name = ''A "b"'', p_tags = [''x'', ''y<z''], p_left = 10, p_top = 20,
       p_width = 100, p_height = 50, p_text = ''1 < 2 & 3''\<rparr>\<close> 7] h
    by (simp add: d escape_Cons escape_Nil escapeHtmlChar_def)
qed

subsection \<open>C8: the effective start identifier\<close>

text \<open>
  C8. \<^verbatim>\<open>publishStory\<close> works with the effective start identifier: the explicit argument
  when one is given (a truthy value: the code reads \<^verbatim>\<open>startId || story.startPassage\<close>),
  and the declared start of the story otherwise. It is this identifier that strict mode
  validates (\<^verbatim>\<open>NoStartPoint\<close> when it is missing, \<^verbatim>\<open>StartPointNotFound\<close> when no passage
  carries it) and that selects the passage whose local id is written to \<^verbatim>\<open>startnode\<close>
  (empty when no passage carries it). So with an argument given the result does not depend
  on the start the story declares, and without one the call is the same as one that passes
  the declared start as the argument.
\<close>

theorem publishStory_start_resolution:
  \<open>js_or sid (startPassage S) = effective_start sid S
    \<and> (truthy sid \<longrightarrow> effective_start sid S = sid)
    \<and> (\<not> truthy sid \<longrightarrow> effective_start sid S = startPassage S)
    \<and> (\<not> truthy (effective_start sid S) \<longrightarrow>
         publishStory ns ai S fo sid False = Inl NoStartPoint)
    \<and> (truthy (effective_start sid S) \<and>
        (\<forall>p\<in>set (passages S). Some (p_id p) \<noteq> effective_start sid S) \<longrightarrow>
         publishStory ns ai S fo sid False = Inl StartPointNotFound)
    \<and> (\<forall>i<length (passages S).
         Some (p_id (passages S ! i)) = effective_start sid S \<and>
         (\<forall>j. i < j \<and> j < length (passages S) \<longrightarrow>
              Some (p_id (passages S ! j)) \<noteq> effective_start sid S) \<longrightarrow>
         publishStory ns ai S fo sid True =
           Inr (storydata ns ai S fo (Some (Suc i)) (tagData (tagColors S))
                  (concat (map (\<lambda>k. publishPassage ns (passages S ! k) (Suc k))
                             [0..<length (passages S)]))) \<and>
         (truthy (effective_start sid S) \<longrightarrow>
            publishStory ns ai S fo sid False =
              Inr (storydata ns ai S fo (Some (Suc i)) (tagData (tagColors S))
                     (concat (map (\<lambda>k. publishPassage ns (passages S ! k) (Suc k))
                                [0..<length (passages S)])))))
    \<and> ((\<forall>p\<in>set (passages S). Some (p_id p) \<noteq> effective_start sid S) \<longrightarrow>
         publishStory ns ai S fo sid True =
           Inr (storydata ns ai S fo None (tagData (tagColors S))
                  (concat (map (\<lambda>k. publishPassage ns (passages S ! k) (Suc k))
                             [0..<length (passages S)]))))
    \<and> (\<forall>m td pd. \<exists>rest. storydata ns ai S fo (Some (Suc m)) td pd =
          ''<tw-storydata name="'' @ escape (s_name S) @ ''" startnode="'' @ decimal (Suc m) @
          ''" creator="'' @ rest)
    \<and> (\<forall>td pd. \<exists>rest. storydata ns ai S fo None td pd =
          ''<tw-storydata name="'' @ escape (s_name S) @ ''" startnode="" creator="'' @ rest)
    \<and> (truthy sid \<longrightarrow>
         publishStory ns ai (S\<lparr>startPassage := d\<rparr>) fo sid so = publishStory ns ai S fo sid so)
    \<and> (\<not> truthy sid \<longrightarrow>
         publishStory ns ai S fo sid so = publishStory ns ai S fo (startPassage S) so)\<close>
proof -
  let ?e = "effective_start sid S"
  let ?ps = "passages S"
  let ?pd = "concat (map (\<lambda>k. publishPassage ns (?ps ! k) (Suc k)) [0..<length ?ps])"
  have r: "js_or sid (startPassage S) = ?e"
    by (simp add: js_or_def effective_start_def)
  have pd: "numbered_passages ns 0 ?ps = ?pd"
    by (simp add: numbered_passages_concat)
  have c2: "truthy sid \<longrightarrow> ?e = sid"
    by (simp add: effective_start_def)
  have c3: "\<not> truthy sid \<longrightarrow> ?e = startPassage S"
    by (simp add: effective_start_def)
  have c4: "\<not> truthy ?e \<longrightarrow> publishStory ns ai S fo sid False = Inl NoStartPoint"
    by (simp add: publishStory_strict r)
  have c5: "truthy ?e \<and> (\<forall>p\<in>set ?ps. Some (p_id p) \<noteq> ?e) \<longrightarrow>
         publishStory ns ai S fo sid False = Inl StartPointNotFound"
    by (simp add: publishStory_strict r local_id_of_None)
  have found: "publishStory ns ai S fo sid True =
           Inr (storydata ns ai S fo (Some (Suc i)) (tagData (tagColors S)) ?pd) \<and>
         (truthy ?e \<longrightarrow>
            publishStory ns ai S fo sid False =
              Inr (storydata ns ai S fo (Some (Suc i)) (tagData (tagColors S)) ?pd))"
    if "i < length ?ps" "Some (p_id (?ps ! i)) = ?e"
       "\<forall>j. i < j \<and> j < length ?ps \<longrightarrow> Some (p_id (?ps ! j)) \<noteq> ?e" for i
  proof -
    have "local_id_of ?e 0 ?ps = Some (Suc i)"
      using local_id_of_last[OF that, of 0] by simp
    then show ?thesis
      by (simp add: publishStory_lenient publishStory_strict r pd)
  qed
  have c6: "\<forall>i<length ?ps.
         Some (p_id (?ps ! i)) = ?e \<and>
         (\<forall>j. i < j \<and> j < length ?ps \<longrightarrow> Some (p_id (?ps ! j)) \<noteq> ?e) \<longrightarrow>
         publishStory ns ai S fo sid True =
           Inr (storydata ns ai S fo (Some (Suc i)) (tagData (tagColors S)) ?pd) \<and>
         (truthy ?e \<longrightarrow>
            publishStory ns ai S fo sid False =
              Inr (storydata ns ai S fo (Some (Suc i)) (tagData (tagColors S)) ?pd))"
    using found by blast
  have c7: "(\<forall>p\<in>set ?ps. Some (p_id p) \<noteq> ?e) \<longrightarrow>
         publishStory ns ai S fo sid True =
           Inr (storydata ns ai S fo None (tagData (tagColors S)) ?pd)"
  proof
    assume "\<forall>p\<in>set ?ps. Some (p_id p) \<noteq> ?e"
    then have "local_id_of ?e 0 ?ps = None"
      by (simp add: local_id_of_None)
    then show "publishStory ns ai S fo sid True =
           Inr (storydata ns ai S fo None (tagData (tagColors S)) ?pd)"
      by (simp add: publishStory_lenient r pd)
  qed
  have c10: "truthy sid \<longrightarrow>
         publishStory ns ai (S\<lparr>startPassage := d\<rparr>) fo sid so = publishStory ns ai S fo sid so"
    by (simp add: publishStory_def js_or_def storydata_def)
  have c11: "\<not> truthy sid \<longrightarrow>
         publishStory ns ai S fo sid so = publishStory ns ai S fo (startPassage S) so"
    by (simp add: publishStory_def js_or_def storydata_def)
  show ?thesis
    apply (intro conjI)
              apply (rule r)
             apply (rule c2)
            apply (rule c3)
           apply (rule c4)
          apply (rule c5)
         apply (rule c6)
        apply (rule c7)
       apply (intro allI, rule storydata_startnode_Some)
      apply (intro allI, rule storydata_startnode_None)
     apply (rule c10)
    apply (rule c11)
    done
qed

theorem publishStory_start_resolution_witness:
  \<open>truthy (Some ''a1'') \<and> \<not> truthy None \<and> \<not> truthy (Some [])
   \<and> publishStory decimal ex_app ex_story None (Some ''a1'') False =
       Inr ''<tw-storydata name="A&amp;B" startnode="1" creator="Twine" creator-version="2.4.0" ifid="IFID-1" zoom="1" format="Harlowe" format-version="3.2.0" options="" hidden><style role="stylesheet" id="twine-user-stylesheet" type="text/twine-css">a>b{}</style><script role="script" id="twine-user-script" type="text/twine-javascript">x&&y</script><tw-tag name="intro" color="red"></tw-tag><tw-passagedata pid="1" name="Start" tags="intro dark" position="10,20" size="100,100">Go &lt;east&gt; &amp; &quot;west&quot; $1</tw-passagedata><tw-passagedata pid="2" name="End" tags="" position="30,40" size="100,100">Done</tw-passagedata></tw-storydata>''
   \<and> publishStory decimal ex_app ex_story None None False =
       Inr ''<tw-storydata name="A&amp;B" startnode="2" creator="Twine" creator-version="2.4.0" ifid="IFID-1" zoom="1" format="Harlowe" format-version="3.2.0" options="" hidden><style role="stylesheet" id="twine-user-stylesheet" type="text/twine-css">a>b{}</style><script role="script" id="twine-user-script" type="text/twine-javascript">x&&y</script><tw-tag name="intro" color="red"></tw-tag><tw-passagedata pid="1" name="Start" tags="intro dark" position="10,20" size="100,100">Go &lt;east&gt; &amp; &quot;west&quot; $1</tw-passagedata><tw-passagedata pid="2" name="End" tags="" position="30,40" size="100,100">Done</tw-passagedata></tw-storydata>''
   \<and> publishStory decimal ex_app (ex_story\<lparr>startPassage := Some ''zz''\<rparr>) None (Some ''a1'') False =
       publishStory decimal ex_app ex_story None (Some ''a1'') False
   \<and> publishStory decimal ex_app ex_story None None False =
       publishStory decimal ex_app ex_story None (Some ''b2'') False
   \<and> publishStory decimal ex_app ex_story None (Some []) False =
       publishStory decimal ex_app ex_story None (Some ''b2'') False\<close>
proof -
  let ?pd = "concat (map (\<lambda>k. publishPassage decimal (passages ex_story ! k) (Suc k))
      [0..<length (passages ex_story)])"
  have t: "truthy (Some ''a1'')" and n: "\<not> truthy None" and e: "\<not> truthy (Some [])"
    by (simp_all add: truthy_def)
  have sp: "startPassage ex_story = Some ''b2''"
    by (simp add: ex_defs)
  have len: "0 < length (passages ex_story)" "1 < length (passages ex_story)"
    by (simp_all add: ex_defs)
  note given = publishStory_start_resolution[of "Some ''a1''" ex_story decimal ex_app None
      "Some ''zz''" False]
  note absent = publishStory_start_resolution[of None ex_story decimal ex_app None
      "Some ''zz''" False]
  note empty = publishStory_start_resolution[of "Some []" ex_story decimal ex_app None
      "Some ''zz''" False]
  have eg: "effective_start (Some ''a1'') ex_story = Some ''a1''"
    using given t by blast
  have ea: "effective_start None ex_story = Some ''b2''"
    using absent n sp by simp
  have first: "Some (p_id (passages ex_story ! 0)) = effective_start (Some ''a1'') ex_story \<and>
      (\<forall>j. 0 < j \<and> j < length (passages ex_story) \<longrightarrow>
           Some (p_id (passages ex_story ! j)) \<noteq> effective_start (Some ''a1'') ex_story)"
  proof (intro conjI allI impI)
    show "Some (p_id (passages ex_story ! 0)) = effective_start (Some ''a1'') ex_story"
      by (simp add: eg) (simp add: ex_defs)
  next
    fix j assume "0 < j \<and> j < length (passages ex_story)"
    then have "j = 1" by (simp add: ex_defs)
    then show "Some (p_id (passages ex_story ! j)) \<noteq> effective_start (Some ''a1'') ex_story"
      by (simp add: eg) (simp add: ex_defs)
  qed
  have second: "Some (p_id (passages ex_story ! 1)) = effective_start None ex_story \<and>
      (\<forall>j. 1 < j \<and> j < length (passages ex_story) \<longrightarrow>
           Some (p_id (passages ex_story ! j)) \<noteq> effective_start None ex_story)"
    by (simp add: ea) (simp add: ex_defs)
  have tg: "truthy (effective_start (Some ''a1'') ex_story)"
    by (simp add: eg truthy_def)
  have ta: "truthy (effective_start None ex_story)"
    by (simp add: ea truthy_def)
  have 1: "publishStory decimal ex_app ex_story None (Some ''a1'') False =
      Inr (storydata decimal ex_app ex_story None (Some (Suc 0)) (tagData (tagColors ex_story)) ?pd)"
    using given len(1) first tg by blast
  have 2: "publishStory decimal ex_app ex_story None None False =
      Inr (storydata decimal ex_app ex_story None (Some (Suc 1)) (tagData (tagColors ex_story)) ?pd)"
    using absent len(2) second ta by blast
  have 3: "publishStory decimal ex_app (ex_story\<lparr>startPassage := Some ''zz''\<rparr>) None (Some ''a1'') False =
       publishStory decimal ex_app ex_story None (Some ''a1'') False"
    using given t by blast
  have 4: "publishStory decimal ex_app ex_story None None False =
       publishStory decimal ex_app ex_story None (Some ''b2'') False"
    using absent n by (simp add: sp)
  have 5: "publishStory decimal ex_app ex_story None (Some []) False =
       publishStory decimal ex_app ex_story None (Some ''b2'') False"
    using empty e by (simp add: sp)
  have v1: \<open>storydata decimal ex_app ex_story None (Some (Suc 0)) (tagData (tagColors ex_story)) ?pd =
      ''<tw-storydata name="A&amp;B" startnode="1" creator="Twine" creator-version="2.4.0" ifid="IFID-1" zoom="1" format="Harlowe" format-version="3.2.0" options="" hidden><style role="stylesheet" id="twine-user-stylesheet" type="text/twine-css">a>b{}</style><script role="script" id="twine-user-script" type="text/twine-javascript">x&&y</script><tw-tag name="intro" color="red"></tw-tag><tw-passagedata pid="1" name="Start" tags="intro dark" position="10,20" size="100,100">Go &lt;east&gt; &amp; &quot;west&quot; $1</tw-passagedata><tw-passagedata pid="2" name="End" tags="" position="30,40" size="100,100">Done</tw-passagedata></tw-storydata>''\<close>
    by (simp add: ex_defs storydata_def publishPassage_def tagData_def object_keys_def
        array_toString_def startnode_value_def escape_nullable_def escape_Nil escape_Cons
        escapeHtmlChar_def decimal.simps upt_rec)
  have v2: \<open>storydata decimal ex_app ex_story None (Some (Suc 1)) (tagData (tagColors ex_story)) ?pd =
      ''<tw-storydata name="A&amp;B" startnode="2" creator="Twine" creator-version="2.4.0" ifid="IFID-1" zoom="1" format="Harlowe" format-version="3.2.0" options="" hidden><style role="stylesheet" id="twine-user-stylesheet" type="text/twine-css">a>b{}</style><script role="script" id="twine-user-script" type="text/twine-javascript">x&&y</script><tw-tag name="intro" color="red"></tw-tag><tw-passagedata pid="1" name="Start" tags="intro dark" position="10,20" size="100,100">Go &lt;east&gt; &amp; &quot;west&quot; $1</tw-passagedata><tw-passagedata pid="2" name="End" tags="" position="30,40" size="100,100">Done</tw-passagedata></tw-storydata>''\<close>
    by (simp add: ex_defs storydata_def publishPassage_def tagData_def object_keys_def
        array_toString_def startnode_value_def escape_nullable_def escape_Nil escape_Cons
        escapeHtmlChar_def decimal.simps upt_rec)
  from t n e 1[unfolded v1] 2[unfolded v2] 3 4 5 show ?thesis
    by (intro conjI)
qed

subsection \<open>C9: the errors of publishStoryWithFormat\<close>

text \<open>
  C9, as stated, fails: with a template present the call can still raise. The template
  \<^verbatim>\<open>{{STORY_DATA}}\<close> makes the second replacer call \<^verbatim>\<open>publishStory\<close> in strict mode, which
  raises for a story without a start passage.
\<close>

theorem publishStoryWithFormat_raises_with_source:
  \<open>has_source (ex_format ''{{STORY_DATA}}'')
   \<and> publishStoryWithFormat decimal ex_app (ex_story\<lparr>startPassage := None\<rparr>)
         (ex_format ''{{STORY_DATA}}'') None None = Inl NoStartPoint\<close>
  by (simp add: has_source_def ex_format_def truthy_def publishStoryWithFormat_def
      publishStoryWithFormat_run_def publishStory_def js_or_def)

text \<open>
  C9, amended. \<^verbatim>\<open>publishStoryWithFormat\<close> raises \<^verbatim>\<open>MissingTemplateSource\<close> exactly when the
  format has no template (\<^verbatim>\<open>properties\<close> or \<^verbatim>\<open>properties.source\<close> is missing, or the source
  is the empty string). With a template it succeeds whenever strict \<^verbatim>\<open>publishStory\<close>
  succeeds for the story, and an error it raises is the one strict \<^verbatim>\<open>publishStory\<close>
  raises: \<^verbatim>\<open>NoStartPoint\<close> or \<^verbatim>\<open>StartPointNotFound\<close>.
\<close>

theorem publishStoryWithFormat_errors:
  \<open>(publishStoryWithFormat ns ai S fmt fo sid = Inl MissingTemplateSource \<longleftrightarrow> \<not> has_source fmt)
    \<and> (has_source fmt \<longleftrightarrow>
         (\<exists>props src. properties fmt = Some props \<and> source props = Some src \<and> src \<noteq> []))
    \<and> (has_source fmt \<and> (\<exists>frag. publishStory ns ai S fo sid False = Inr frag) \<longrightarrow>
         (\<exists>out. publishStoryWithFormat ns ai S fmt fo sid = Inr out))
    \<and> (has_source fmt \<and> publishStoryWithFormat ns ai S fmt fo sid = Inl e \<longrightarrow>
         publishStory ns ai S fo sid False = Inl e \<and> (e = NoStartPoint \<or> e = StartPointNotFound))\<close>
proof -
  have src: "has_source fmt \<longleftrightarrow>
      (\<exists>props src. properties fmt = Some props \<and> source props = Some src \<and> src \<noteq> [])"
    by (auto simp: has_source_def truthy_def split: option.splits)
  have strict: "e' = NoStartPoint \<or> e' = StartPointNotFound"
    if "publishStory ns ai S fo sid False = Inl e'" for e'
    using that by (auto simp: publishStory_eq split: if_splits)
  have with_source:
    "publishStoryWithFormat ns ai S fmt fo sid \<noteq> Inl MissingTemplateSource
     \<and> ((\<exists>frag. publishStory ns ai S fo sid False = Inr frag) \<longrightarrow>
          (\<exists>out. publishStoryWithFormat ns ai S fmt fo sid = Inr out))
     \<and> (publishStoryWithFormat ns ai S fmt fo sid = Inl e \<longrightarrow>
          publishStory ns ai S fo sid False = Inl e)"
    if "has_source fmt"
  proof -
    from that src obtain props s where
      p: "properties fmt = Some props" "source props = Some s" "s \<noteq> []" by blast
    show ?thesis
    proof (cases "publishStory ns ai S fo sid False")
      case (Inl e')
      with strict[of e'] show ?thesis
        by (auto simp: publishStoryWithFormat_def run_eq[OF p] split: if_splits)
    next
      case (Inr frag)
      then show ?thesis
        by (simp add: publishStoryWithFormat_def run_eq[OF p])
    qed
  qed
  have c1: "publishStoryWithFormat ns ai S fmt fo sid = Inl MissingTemplateSource \<longleftrightarrow>
      \<not> has_source fmt"
    using with_source run_no_source[of fmt ns ai S fo sid]
    by (auto simp: publishStoryWithFormat_def)
  have c3: "has_source fmt \<and> (\<exists>frag. publishStory ns ai S fo sid False = Inr frag) \<longrightarrow>
         (\<exists>out. publishStoryWithFormat ns ai S fmt fo sid = Inr out)"
    using with_source by blast
  have c4: "has_source fmt \<and> publishStoryWithFormat ns ai S fmt fo sid = Inl e \<longrightarrow>
         publishStory ns ai S fo sid False = Inl e \<and> (e = NoStartPoint \<or> e = StartPointNotFound)"
    using with_source strict[of e] by blast
  from c1 src c3 c4 show ?thesis by blast
qed

theorem publishStoryWithFormat_errors_witness:
  \<open>publishStoryWithFormat decimal ex_app ex_story \<lparr>properties = None\<rparr> None None =
     Inl MissingTemplateSource
   \<and> publishStoryWithFormat decimal ex_app ex_story \<lparr>properties = Some \<lparr>source = None\<rparr>\<rparr> None None =
     Inl MissingTemplateSource
   \<and> publishStoryWithFormat decimal ex_app ex_story (ex_format []) None None =
     Inl MissingTemplateSource
   \<and> (\<exists>out. publishStoryWithFormat decimal ex_app ex_story (ex_format ''{{STORY_DATA}}'') None None =
         Inr out)
   \<and> publishStory decimal ex_app (ex_story\<lparr>startPassage := None\<rparr>) None None False =
       Inl NoStartPoint\<close>
proof -
  have n1: "\<not> has_source \<lparr>properties = None\<rparr>"
    and n2: "\<not> has_source \<lparr>properties = Some \<lparr>source = None\<rparr>\<rparr>"
    and n3: "\<not> has_source (ex_format [])"
    and y: "has_source (ex_format ''{{STORY_DATA}}'')"
    by (simp_all add: has_source_def ex_format_def truthy_def)
  have ok: "\<exists>frag. publishStory decimal ex_app ex_story None None False = Inr frag"
    by (simp add: ex_defs publishStory_def js_or_def truthy_def split: prod.splits)
  have bad: "publishStoryWithFormat decimal ex_app (ex_story\<lparr>startPassage := None\<rparr>)
         (ex_format ''{{STORY_DATA}}'') None None = Inl NoStartPoint"
    by (simp add: ex_format_def publishStoryWithFormat_def
      publishStoryWithFormat_run_def publishStory_def js_or_def truthy_def)
  from publishStoryWithFormat_errors[of decimal ex_app ex_story "\<lparr>properties = None\<rparr>" None None] n1
  have 1: "publishStoryWithFormat decimal ex_app ex_story \<lparr>properties = None\<rparr> None None =
     Inl MissingTemplateSource" by blast
  from publishStoryWithFormat_errors[of decimal ex_app ex_story
      "\<lparr>properties = Some \<lparr>source = None\<rparr>\<rparr>" None None] n2
  have 2: "publishStoryWithFormat decimal ex_app ex_story \<lparr>properties = Some \<lparr>source = None\<rparr>\<rparr>
      None None = Inl MissingTemplateSource" by blast
  from publishStoryWithFormat_errors[of decimal ex_app ex_story "ex_format []" None None] n3
  have 3: "publishStoryWithFormat decimal ex_app ex_story (ex_format []) None None =
     Inl MissingTemplateSource" by blast
  from publishStoryWithFormat_errors[of decimal ex_app ex_story "ex_format ''{{STORY_DATA}}''"
      None None] y ok
  have 4: "\<exists>out. publishStoryWithFormat decimal ex_app ex_story (ex_format ''{{STORY_DATA}}'')
      None None = Inr out" by blast
  from publishStoryWithFormat_errors[of decimal ex_app "ex_story\<lparr>startPassage := None\<rparr>"
      "ex_format ''{{STORY_DATA}}''" None None NoStartPoint] y bad
  have 5: "publishStory decimal ex_app (ex_story\<lparr>startPassage := None\<rparr>) None None False =
       Inl NoStartPoint" by blast
  from 1 2 3 4 5 show ?thesis by blast
qed

subsection \<open>C10: the two substitutions run one after the other\<close>

text \<open>
  C10. With a template present, the result of \<^verbatim>\<open>publishStoryWithFormat\<close> is obtained by
  replacing every \<^verbatim>\<open>{{STORY_NAME}}\<close> in the whole template first and then every
  \<^verbatim>\<open>{{STORY_DATA}}\<close> in the string that results; \<^verbatim>\<open>publishStory\<close> is called once for each
  \<^verbatim>\<open>{{STORY_DATA}}\<close> of that string when it returns, and once, ending the run, when it raises
  and the string has such a token. So for every story named \<^verbatim>\<open>{{STORY_DATA}}\<close> and the
  template \<^verbatim>\<open><h1>{{STORY_NAME}}</h1>\<close>, which has no \<^verbatim>\<open>{{STORY_DATA}}\<close> of its own, the
  fragment is substituted where the name was written, and \<^verbatim>\<open>publishStory\<close> is called once.
\<close>

theorem publishStoryWithFormat_sequential:
  \<open>(properties fmt = Some props \<and> source props = Some src \<and> src \<noteq> [] \<longrightarrow>
      publishStoryWithFormat ns ai S fmt fo sid =
        (case publishStory ns ai S fo sid False of
           Inr frag \<Rightarrow>
             Inr (subst_literal ''{{STORY_DATA}}'' frag
                    (subst_literal ''{{STORY_NAME}}'' (escape (s_name S)) src))
         | Inl e \<Rightarrow>
             if occurrences ''{{STORY_DATA}}''
                  (subst_literal ''{{STORY_NAME}}'' (escape (s_name S)) src) = 0
             then Inr (subst_literal ''{{STORY_NAME}}'' (escape (s_name S)) src)
             else Inl e) \<and>
      publishStory_calls ns ai S fmt fo sid =
        (case publishStory ns ai S fo sid False of
           Inr frag \<Rightarrow>
             occurrences ''{{STORY_DATA}}''
               (subst_literal ''{{STORY_NAME}}'' (escape (s_name S)) src)
         | Inl e \<Rightarrow>
             if occurrences ''{{STORY_DATA}}''
                  (subst_literal ''{{STORY_NAME}}'' (escape (s_name S)) src) = 0
             then 0 else 1))
    \<and> (properties fmt = Some props \<and> source props = Some ''<h1>{{STORY_NAME}}</h1>'' \<and>
        s_name S = ''{{STORY_DATA}}'' \<and> publishStory ns ai S fo sid False = Inr frag \<longrightarrow>
      occurrences ''{{STORY_DATA}}'' ''<h1>{{STORY_NAME}}</h1>'' = 0 \<and>
      publishStoryWithFormat ns ai S fmt fo sid = Inr (''<h1>'' @ frag @ ''</h1>'') \<and>
      publishStory_calls ns ai S fmt fo sid = 1)\<close>
proof -
  have c1: "properties fmt = Some props \<and> source props = Some src \<and> src \<noteq> [] \<longrightarrow>
      publishStoryWithFormat ns ai S fmt fo sid =
        (case publishStory ns ai S fo sid False of
           Inr frag \<Rightarrow>
             Inr (subst_literal ''{{STORY_DATA}}'' frag
                    (subst_literal ''{{STORY_NAME}}'' (escape (s_name S)) src))
         | Inl e \<Rightarrow>
             if occurrences ''{{STORY_DATA}}''
                  (subst_literal ''{{STORY_NAME}}'' (escape (s_name S)) src) = 0
             then Inr (subst_literal ''{{STORY_NAME}}'' (escape (s_name S)) src)
             else Inl e) \<and>
      publishStory_calls ns ai S fmt fo sid =
        (case publishStory ns ai S fo sid False of
           Inr frag \<Rightarrow>
             occurrences ''{{STORY_DATA}}''
               (subst_literal ''{{STORY_NAME}}'' (escape (s_name S)) src)
         | Inl e \<Rightarrow>
             if occurrences ''{{STORY_DATA}}''
                  (subst_literal ''{{STORY_NAME}}'' (escape (s_name S)) src) = 0
             then 0 else 1)"
  proof (intro impI, elim conjE)
    assume p: "properties fmt = Some props" "source props = Some src" "src \<noteq> []"
    show "publishStoryWithFormat ns ai S fmt fo sid =
        (case publishStory ns ai S fo sid False of
           Inr frag \<Rightarrow>
             Inr (subst_literal ''{{STORY_DATA}}'' frag
                    (subst_literal ''{{STORY_NAME}}'' (escape (s_name S)) src))
         | Inl e \<Rightarrow>
             if occurrences ''{{STORY_DATA}}''
                  (subst_literal ''{{STORY_NAME}}'' (escape (s_name S)) src) = 0
             then Inr (subst_literal ''{{STORY_NAME}}'' (escape (s_name S)) src)
             else Inl e) \<and>
      publishStory_calls ns ai S fmt fo sid =
        (case publishStory ns ai S fo sid False of
           Inr frag \<Rightarrow>
             occurrences ''{{STORY_DATA}}''
               (subst_literal ''{{STORY_NAME}}'' (escape (s_name S)) src)
         | Inl e \<Rightarrow>
             if occurrences ''{{STORY_DATA}}''
                  (subst_literal ''{{STORY_NAME}}'' (escape (s_name S)) src) = 0
             then 0 else 1)"
      by (cases "publishStory ns ai S fo sid False")
         (simp_all add: publishStoryWithFormat_def publishStory_calls_def run_eq[OF p])
  qed
  have c2: "properties fmt = Some props \<and> source props = Some ''<h1>{{STORY_NAME}}</h1>'' \<and>
        s_name S = ''{{STORY_DATA}}'' \<and> publishStory ns ai S fo sid False = Inr frag \<longrightarrow>
      occurrences ''{{STORY_DATA}}'' ''<h1>{{STORY_NAME}}</h1>'' = 0 \<and>
      publishStoryWithFormat ns ai S fmt fo sid = Inr (''<h1>'' @ frag @ ''</h1>'') \<and>
      publishStory_calls ns ai S fmt fo sid = 1"
  proof (intro impI, elim conjE)
    assume p: "properties fmt = Some props" "source props = Some ''<h1>{{STORY_NAME}}</h1>''"
      and nm: "s_name S = ''{{STORY_DATA}}''"
      and ok: "publishStory ns ai S fo sid False = Inr frag"
    have ne: "''<h1>{{STORY_NAME}}</h1>'' \<noteq> []" by simp
    have e: "escape (s_name S) = ''{{STORY_DATA}}''"
      by (simp add: nm escape_Cons escape_Nil escapeHtmlChar_def)
    have s1: "subst_literal ''{{STORY_NAME}}'' ''{{STORY_DATA}}'' ''<h1>{{STORY_NAME}}</h1>'' =
        ''<h1>{{STORY_DATA}}</h1>''"
      by (simp add: subst_literal_Cons subst_literal_Nil)
    have o0: "occurrences ''{{STORY_DATA}}'' ''<h1>{{STORY_NAME}}</h1>'' = 0"
      by (simp add: occurrences_Cons occurrences_Nil)
    have o1: "occurrences ''{{STORY_DATA}}'' ''<h1>{{STORY_DATA}}</h1>'' = 1"
      by (simp add: occurrences_Cons occurrences_Nil)
    have s2: "subst_literal ''{{STORY_DATA}}'' frag ''<h1>{{STORY_DATA}}</h1>'' =
        ''<h1>'' @ frag @ ''</h1>''"
      by (simp add: subst_literal_Cons subst_literal_Nil)
    show "occurrences ''{{STORY_DATA}}'' ''<h1>{{STORY_NAME}}</h1>'' = 0 \<and>
      publishStoryWithFormat ns ai S fmt fo sid = Inr (''<h1>'' @ frag @ ''</h1>'') \<and>
      publishStory_calls ns ai S fmt fo sid = 1"
      using o0 by (simp add: publishStoryWithFormat_def publishStory_calls_def
          run_eq[OF p ne] ok e s1 s2 o1)
  qed
  from c1 c2 show ?thesis by (intro conjI)
qed

theorem publishStoryWithFormat_sequential_witness:
  \<open>publishStoryWithFormat decimal ex_app (ex_story\<lparr>s_name := ''{{STORY_DATA}}''\<rparr>)
      (ex_format ''<h1>{{STORY_NAME}}</h1>'') None None =
     Inr ''<h1><tw-storydata name="{{STORY_DATA}}" startnode="2" creator="Twine" creator-version="2.4.0" ifid="IFID-1" zoom="1" format="Harlowe" format-version="3.2.0" options="" hidden><style role="stylesheet" id="twine-user-stylesheet" type="text/twine-css">a>b{}</style><script role="script" id="twine-user-script" type="text/twine-javascript">x&&y</script><tw-tag name="intro" color="red"></tw-tag><tw-passagedata pid="1" name="Start" tags="intro dark" position="10,20" size="100,100">Go &lt;east&gt; &amp; &quot;west&quot; $1</tw-passagedata><tw-passagedata pid="2" name="End" tags="" position="30,40" size="100,100">Done</tw-passagedata></tw-storydata></h1>''
   \<and> publishStory_calls decimal ex_app (ex_story\<lparr>s_name := ''{{STORY_DATA}}''\<rparr>)
      (ex_format ''<h1>{{STORY_NAME}}</h1>'') None None = 1\<close>
proof -
  have p: \<open>properties (ex_format ''<h1>{{STORY_NAME}}</h1>'') =
        Some \<lparr>source = Some ''<h1>{{STORY_NAME}}</h1>''\<rparr>\<close>
    \<open>source \<lparr>source = Some ''<h1>{{STORY_NAME}}</h1>''\<rparr> = Some ''<h1>{{STORY_NAME}}</h1>''\<close>
    \<open>s_name (ex_story\<lparr>s_name := ''{{STORY_DATA}}''\<rparr>) = ''{{STORY_DATA}}''\<close>
    by (simp_all add: ex_format_def)
  have ok: \<open>publishStory decimal ex_app (ex_story\<lparr>s_name := ''{{STORY_DATA}}''\<rparr>) None None False =
     Inr ''<tw-storydata name="{{STORY_DATA}}" startnode="2" creator="Twine" creator-version="2.4.0" ifid="IFID-1" zoom="1" format="Harlowe" format-version="3.2.0" options="" hidden><style role="stylesheet" id="twine-user-stylesheet" type="text/twine-css">a>b{}</style><script role="script" id="twine-user-script" type="text/twine-javascript">x&&y</script><tw-tag name="intro" color="red"></tw-tag><tw-passagedata pid="1" name="Start" tags="intro dark" position="10,20" size="100,100">Go &lt;east&gt; &amp; &quot;west&quot; $1</tw-passagedata><tw-passagedata pid="2" name="End" tags="" position="30,40" size="100,100">Done</tw-passagedata></tw-storydata>''\<close>
    by (simp add: ex_defs eval_defs)
  from publishStoryWithFormat_sequential[of
      \<open>ex_format ''<h1>{{STORY_NAME}}</h1>''\<close>
      \<open>\<lparr>source = Some ''<h1>{{STORY_NAME}}</h1>''\<rparr>\<close> _
      decimal ex_app \<open>ex_story\<lparr>s_name := ''{{STORY_DATA}}''\<rparr>\<close> None None
      \<open>''<tw-storydata name="{{STORY_DATA}}" startnode="2" creator="Twine" creator-version="2.4.0" ifid="IFID-1" zoom="1" format="Harlowe" format-version="3.2.0" options="" hidden><style role="stylesheet" id="twine-user-stylesheet" type="text/twine-css">a>b{}</style><script role="script" id="twine-user-script" type="text/twine-javascript">x&&y</script><tw-tag name="intro" color="red"></tw-tag><tw-passagedata pid="1" name="Start" tags="intro dark" position="10,20" size="100,100">Go &lt;east&gt; &amp; &quot;west&quot; $1</tw-passagedata><tw-passagedata pid="2" name="End" tags="" position="30,40" size="100,100">Done</tw-passagedata></tw-storydata>''\<close>] p ok
  have \<open>publishStoryWithFormat decimal ex_app (ex_story\<lparr>s_name := ''{{STORY_DATA}}''\<rparr>)
      (ex_format ''<h1>{{STORY_NAME}}</h1>'') None None =
      Inr (''<h1>'' @ ''<tw-storydata name="{{STORY_DATA}}" startnode="2" creator="Twine" creator-version="2.4.0" ifid="IFID-1" zoom="1" format="Harlowe" format-version="3.2.0" options="" hidden><style role="stylesheet" id="twine-user-stylesheet" type="text/twine-css">a>b{}</style><script role="script" id="twine-user-script" type="text/twine-javascript">x&&y</script><tw-tag name="intro" color="red"></tw-tag><tw-passagedata pid="1" name="Start" tags="intro dark" position="10,20" size="100,100">Go &lt;east&gt; &amp; &quot;west&quot; $1</tw-passagedata><tw-passagedata pid="2" name="End" tags="" position="30,40" size="100,100">Done</tw-passagedata></tw-storydata>'' @ ''</h1>'')
    \<and> publishStory_calls decimal ex_app (ex_story\<lparr>s_name := ''{{STORY_DATA}}''\<rparr>)
      (ex_format ''<h1>{{STORY_NAME}}</h1>'') None None = 1\<close>
    by blast
  then show ?thesis by simp
qed

end
